theory Spec2Isabelle
  imports Complex_Main
begin

section \<open>Errors\<close>

text \<open>
  The generator of \<^verbatim>\<open>generator.py\<close> raises nothing itself; a forward pass fails when the
  tensor engine refuses a shape, when Python refuses an index, or when a local variable
  is read before it was assigned. Each of these is a value of \<open>error\<close>, and a
  fallible computation returns \<open>error + 'a\<close> with \<open>Inl\<close> for the failure.
\<close>

datatype error = ShapeError | IndexError | UnboundLocalError

definition bindE :: "error + 'a \<Rightarrow> ('a \<Rightarrow> error + 'b) \<Rightarrow> error + 'b" where
  "bindE m f = (case m of Inl e \<Rightarrow> Inl e | Inr x \<Rightarrow> f x)"

section \<open>Tensors\<close>

text \<open>
  Every tensor of the generator has rank four, in the order batch, height, width,
  channel. A tensor carries its shape (as \<^verbatim>\<open>tf.Tensor.shape\<close> does, also when a
  dimension is zero) and its elements as nested lists. The elements are real numbers:
  the arithmetic of the model is exact. The rounding of 32-bit floats is modelled apart,
  for the loop of the class generator alone.
\<close>

datatype tensor =
  Tensor (dimN: nat) (dimH: nat) (dimW: nat) (dimC: nat) (elems: "real list list list list")

definition is_tensor :: "tensor \<Rightarrow> bool" where
  "is_tensor t \<longleftrightarrow>
     length (elems t) = dimN t \<and>
     (\<forall>img \<in> set (elems t). length img = dimH t \<and>
       (\<forall>row \<in> set img. length row = dimW t \<and>
         (\<forall>px \<in> set row. length px = dimC t)))"

definition has_shape :: "tensor \<Rightarrow> nat \<Rightarrow> nat \<Rightarrow> nat \<Rightarrow> nat \<Rightarrow> bool" where
  "has_shape t B H W C \<longleftrightarrow>
     is_tensor t \<and> dimN t = B \<and> dimH t = H \<and> dimW t = W \<and> dimC t = C"

definition pixel :: "tensor \<Rightarrow> nat \<Rightarrow> nat \<Rightarrow> nat \<Rightarrow> real list" where
  "pixel t b i j = elems t ! b ! i ! j"

definition tnth :: "tensor \<Rightarrow> nat \<Rightarrow> nat \<Rightarrow> nat \<Rightarrow> nat \<Rightarrow> real" where
  "tnth t b i j c = pixel t b i j ! c"

definition tmap :: "(real \<Rightarrow> real) \<Rightarrow> tensor \<Rightarrow> tensor" where
  "tmap f t = Tensor (dimN t) (dimH t) (dimW t) (dimC t) (map (map (map (map f))) (elems t))"

definition const_tensor :: "nat \<Rightarrow> nat \<Rightarrow> nat \<Rightarrow> nat \<Rightarrow> real \<Rightarrow> tensor" where
  "const_tensor B H W C v = Tensor B H W C (replicate B (replicate H (replicate W (replicate C v))))"

text \<open>\<^verbatim>\<open>tf.zeros(shape)\<close>.\<close>

definition zeros :: "nat \<Rightarrow> nat \<Rightarrow> nat \<Rightarrow> nat \<Rightarrow> tensor" where
  "zeros B H W C = const_tensor B H W C 0"

subsection \<open>The normalized exponential over the class axis\<close>

text \<open>\<^verbatim>\<open>Softmax(axis=3)\<close>: every pixel's class scores are exponentiated and divided by their sum.\<close>

definition softmax_vec :: "real list \<Rightarrow> real list" where
  "softmax_vec xs = map (\<lambda>x. exp x / sum_list (map exp xs)) xs"

definition Softmax_axis3 :: "tensor \<Rightarrow> tensor" where
  "Softmax_axis3 t =
     Tensor (dimN t) (dimH t) (dimW t) (dimC t) (map (map (map softmax_vec)) (elems t))"

subsection \<open>Element-wise operations\<close>

text \<open>
  \<^verbatim>\<open>a * b\<close> and \<^verbatim>\<open>a + b\<close> on tensors broadcast: on every axis the two dimensions are
  equal or one of them is 1, and the result has the larger one; any other pair of
  dimensions is refused by the tensor engine.
\<close>

definition bdim :: "nat \<Rightarrow> nat \<Rightarrow> nat option" where
  "bdim a b = (if a = b then Some a else if a = 1 then Some b else if b = 1 then Some a else None)"

definition bzip :: "('a \<Rightarrow> 'b \<Rightarrow> 'c) \<Rightarrow> 'a list \<Rightarrow> 'b list \<Rightarrow> 'c list" where
  "bzip f xs ys =
     (if length xs = length ys then map2 f xs ys
      else if length xs = 1 then map (f (xs ! 0)) ys
      else map (\<lambda>x. f x (ys ! 0)) xs)"

definition bidx :: "nat \<Rightarrow> nat \<Rightarrow> nat" where
  "bidx n i = (if n = 1 then 0 else i)"

definition tensor_binop :: "(real \<Rightarrow> real \<Rightarrow> real) \<Rightarrow> tensor \<Rightarrow> tensor \<Rightarrow> error + tensor" where
  "tensor_binop f s t =
     (case (bdim (dimN s) (dimN t), bdim (dimH s) (dimH t),
            bdim (dimW s) (dimW t), bdim (dimC s) (dimC t)) of
        (Some n, Some h, Some w, Some c) \<Rightarrow>
          Inr (Tensor n h w c (bzip (bzip (bzip (bzip f))) (elems s) (elems t)))
      | _ \<Rightarrow> Inl ShapeError)"

definition tadd :: "tensor \<Rightarrow> tensor \<Rightarrow> error + tensor" where
  "tadd = tensor_binop (+)"

definition tmul :: "tensor \<Rightarrow> tensor \<Rightarrow> error + tensor" where
  "tmul = tensor_binop (*)"

definition ReLU :: "tensor \<Rightarrow> tensor" where
  "ReLU = tmap (max 0)"

definition tanh_activation :: "tensor \<Rightarrow> tensor" where
  "tanh_activation = tmap tanh"

subsection \<open>Concatenation, slicing and reshaping\<close>

text \<open>\<^verbatim>\<open>tf.concat((s, t), axis=3)\<close>: the other three dimensions must agree.\<close>

definition concat_axis3 :: "tensor \<Rightarrow> tensor \<Rightarrow> error + tensor" where
  "concat_axis3 s t =
     (if dimN s = dimN t \<and> dimH s = dimH t \<and> dimW s = dimW t
      then Inr (Tensor (dimN s) (dimH s) (dimW s) (dimC s + dimC t)
                  (map2 (map2 (map2 (@))) (elems s) (elems t)))
      else Inl ShapeError)"

text \<open>\<^verbatim>\<open>tf.expand_dims(t[:, :, :, k], axis=3)\<close>: channel \<open>k\<close> alone, as a one-channel tensor.\<close>

definition select_channel :: "tensor \<Rightarrow> nat \<Rightarrow> error + tensor" where
  "select_channel t k =
     (if k < dimC t
      then Inr (Tensor (dimN t) (dimH t) (dimW t) 1 (map (map (map (\<lambda>px. [px ! k]))) (elems t)))
      else Inl IndexError)"

text \<open>A rank-two tensor, for \<^verbatim>\<open>z_k[:, 0, 0, :]\<close> and the estimate of the noise.\<close>

datatype matrix = Matrix (mrows: nat) (mcols: nat) (mentries: "real list list")

definition squeeze_spatial :: "tensor \<Rightarrow> error + matrix" where
  "squeeze_spatial t =
     (if 0 < dimH t \<and> 0 < dimW t
      then Inr (Matrix (dimN t) (dimC t) (map (\<lambda>img. img ! 0 ! 0) (elems t)))
      else Inl IndexError)"

definition flatten :: "tensor \<Rightarrow> real list" where
  "flatten t = concat (concat (concat (elems t)))"

definition chunks :: "nat \<Rightarrow> 'a list \<Rightarrow> 'a list list" where
  "chunks n xs = map (\<lambda>i. take n (drop (i * n) xs)) [0..<length xs div n]"

text \<open>
  \<^verbatim>\<open>tf.reshape(t, (-1, h, w, c))\<close>: the elements in row-major order, cut into images of
  \<open>h * w * c\<close> elements. The batch dimension is inferred. When a known dimension is
  zero, an empty tensor is reshaped to batch size 0 and any other tensor is refused;
  otherwise the engine refuses the call when the elements do not divide evenly.
\<close>

definition reshape_infer_batch :: "tensor \<Rightarrow> nat \<Rightarrow> nat \<Rightarrow> nat \<Rightarrow> error + tensor" where
  "reshape_infer_batch t h w c =
     (let total = dimN t * dimH t * dimW t * dimC t; known = h * w * c in
      if known = 0 then (if total = 0 then Inr (Tensor 0 h w c []) else Inl ShapeError)
      else if total mod known \<noteq> 0 then Inl ShapeError
      else Inr (Tensor (total div known) h w c
                  (map (\<lambda>img. map (chunks c) (chunks (w * c) img)) (chunks known (flatten t)))))"

subsection \<open>Framework layers with a fixed meaning\<close>

text \<open>
  \<^verbatim>\<open>LayerNormalization(axis=(1, 2), center=False, scale=False)\<close>: for every batch element
  and every channel, the mean and the variance are taken over the two spatial axes, and
  each value becomes \<open>(x - mean) / sqrt (variance + epsilon)\<close> with Keras' default
  \<open>epsilon = 0.001\<close>.
\<close>

definition mean :: "real list \<Rightarrow> real" where
  "mean xs = sum_list xs / real (length xs)"

definition variance :: "real list \<Rightarrow> real" where
  "variance xs = mean (map (\<lambda>v. (v - mean xs)\<^sup>2) xs)"

definition channel_values :: "real list list list \<Rightarrow> nat \<Rightarrow> real list" where
  "channel_values img c = map (\<lambda>px. px ! c) (concat img)"

definition ln_epsilon :: real where
  "ln_epsilon = 1 / 1000"

definition instance_norm_image :: "real list list list \<Rightarrow> real list list list" where
  "instance_norm_image img =
     map (map (\<lambda>px. map (\<lambda>c. (px ! c - mean (channel_values img c)) /
                              sqrt (variance (channel_values img c) + ln_epsilon))
                        [0..<length px])) img"

definition LayerNormalization_axes12 :: "tensor \<Rightarrow> tensor" where
  "LayerNormalization_axes12 t =
     Tensor (dimN t) (dimH t) (dimW t) (dimC t) (map instance_norm_image (elems t))"

text \<open>
  \<^verbatim>\<open>Dense(units)\<close> and \<^verbatim>\<open>Conv2D(filters, kernel_size=(1, 1), padding='same')\<close> apply the same
  affine map to the channel vector of every pixel. The kernel has one row per input
  channel and one column per output channel. A layer whose kernel was built for another
  number of input channels refuses the input, and the convolution refuses an input that
  has no channel at all (the engine rejects a filter of depth 0).
\<close>

record affine =
  kernel :: "real list list"
  bias :: "real list"

definition affine_px :: "affine \<Rightarrow> real list \<Rightarrow> real list" where
  "affine_px L px =
     map (\<lambda>f. sum_list (map (\<lambda>c. px ! c * kernel L ! c ! f) [0..<length px]) + bias L ! f)
       [0..<length (bias L)]"

definition pointwise_affine :: "affine \<Rightarrow> tensor \<Rightarrow> error + tensor" where
  "pointwise_affine L t =
     (if dimC t = length (kernel L)
      then Inr (Tensor (dimN t) (dimH t) (dimW t) (length (bias L))
                  (map (map (map (affine_px L))) (elems t)))
      else Inl ShapeError)"

definition Dense :: "affine \<Rightarrow> tensor \<Rightarrow> error + tensor" where
  "Dense = pointwise_affine"

definition Conv2D_1x1 :: "affine \<Rightarrow> tensor \<Rightarrow> error + tensor" where
  "Conv2D_1x1 L t = (if dimC t = 0 then Inl ShapeError else pointwise_affine L t)"

definition affine_built :: "nat \<Rightarrow> nat \<Rightarrow> affine \<Rightarrow> bool" where
  "affine_built n_in n_out L \<longleftrightarrow>
     length (kernel L) = n_in \<and> (\<forall>row \<in> set (kernel L). length row = n_out) \<and>
     length (bias L) = n_out"

section \<open>The layers of the generator\<close>

subsection \<open>Conditional batch normalization\<close>

text \<open>
  \<^verbatim>\<open>ConditionalBatchNormalization\<close> owns the instance normalization \<^verbatim>\<open>in_1\<close>, which has no
  weights, and the two 1x1 convolutions \<^verbatim>\<open>gamma\<close> and \<^verbatim>\<open>beta\<close>.
\<close>

record cbn_layer =
  gamma :: affine
  beta :: affine

definition ConditionalBatchNormalization_call ::
  "cbn_layer \<Rightarrow> tensor \<Rightarrow> tensor \<Rightarrow> error + tensor" where
  "ConditionalBatchNormalization_call self x z_k =
     (let x = LayerNormalization_axes12 x in
      bindE (Conv2D_1x1 (gamma self) z_k) (\<lambda>gamma_c.
      bindE (Conv2D_1x1 (beta self) z_k) (\<lambda>beta_c.
      bindE (tmul gamma_c x) (\<lambda>scaled.
      tadd scaled beta_c))))"

text \<open>
  Keras enters a layer through \<^verbatim>\<open>Layer.__call__\<close>, which knows the mode (training or
  inference) of the enclosing call and hands it to \<^verbatim>\<open>call\<close> only when \<^verbatim>\<open>call\<close> declares a
  \<^verbatim>\<open>training\<close> parameter. \<^verbatim>\<open>ConditionalBatchNormalization.call(self, x, z_k)\<close> declares
  none, and neither do the layers it owns: the mode stops here.
\<close>

definition ConditionalBatchNormalization_dunder_call ::
  "cbn_layer \<Rightarrow> bool \<Rightarrow> tensor \<Rightarrow> tensor \<Rightarrow> error + tensor" where
  "ConditionalBatchNormalization_dunder_call self training x z_k =
     ConditionalBatchNormalization_call self x z_k"

definition cbn_built :: "nat \<Rightarrow> nat \<Rightarrow> cbn_layer \<Rightarrow> bool" where
  "cbn_built n_in filters self \<longleftrightarrow>
     affine_built n_in filters (gamma self) \<and> affine_built n_in filters (beta self)"

subsection \<open>Input block\<close>

record input_block =
  ib_output_channels :: nat
  ib_dense :: affine
  ib_cbn :: cbn_layer

definition InputBlock_call :: "input_block \<Rightarrow> tensor \<Rightarrow> error + tensor" where
  "InputBlock_call self z_k =
     bindE (Dense (ib_dense self) z_k) (\<lambda>x.
     bindE (reshape_infer_batch x 4 4 (ib_output_channels self)) (\<lambda>x.
     bindE (ConditionalBatchNormalization_call (ib_cbn self) x z_k) (\<lambda>x.
     Inr (ReLU x))))"

text \<open>
  What \<^verbatim>\<open>InputBlock.__init__(init_gain, base_channels, output_factor)\<close> and the first call
  on a noise vector of \<open>n_input\<close> channels leave: the number of output channels, a dense
  layer of \<open>output_channels * 4 * 4\<close> units and a normalization of \<open>output_channels\<close>
  filters. The constructor refuses a layer of no unit or no filter, so there is at least
  one output channel.
\<close>

definition InputBlock_built :: "nat \<Rightarrow> nat \<Rightarrow> nat \<Rightarrow> input_block \<Rightarrow> bool" where
  "InputBlock_built base_channels output_factor n_input self \<longleftrightarrow>
     ib_output_channels self = base_channels * output_factor \<and>
     0 < ib_output_channels self \<and>
     affine_built n_input (ib_output_channels self * 4 * 4) (ib_dense self) \<and>
     cbn_built n_input (ib_output_channels self) (ib_cbn self)"

subsection \<open>Layers taken as parameters\<close>

text \<open>
  \<^verbatim>\<open>SpectralNormalization\<close> and \<^verbatim>\<open>SelfAttentionModule\<close> come from \<^verbatim>\<open>network_components\<close>,
  which is not part of the file; \<^verbatim>\<open>UpSampling2D\<close>, \<^verbatim>\<open>AveragePooling2D\<close> and the 3x3
  \<^verbatim>\<open>Conv2D\<close> are Keras layers. Each is a function on tensors here, and what the blocks
  need of it is its effect on the shape:
  a convolution with \<^verbatim>\<open>padding='same'\<close> keeps batch and spatial dimensions and has
  \<open>filters\<close> output channels; \<^verbatim>\<open>UpSampling2D(size=(2, 2))\<close> doubles height and width;
  \<^verbatim>\<open>AveragePooling2D(pool_size=s, padding='same')\<close> divides height and width by \<open>s\<close>,
  rounding up; the attention module keeps the shape.
\<close>

definition conv_same_contract :: "nat \<Rightarrow> (bool \<Rightarrow> tensor \<Rightarrow> tensor) \<Rightarrow> bool" where
  "conv_same_contract filters f \<longleftrightarrow>
     (\<forall>training t. is_tensor t \<longrightarrow> has_shape (f training t) (dimN t) (dimH t) (dimW t) filters)"

definition upsample_contract :: "(tensor \<Rightarrow> tensor) \<Rightarrow> bool" where
  "upsample_contract f \<longleftrightarrow>
     (\<forall>t. is_tensor t \<longrightarrow> has_shape (f t) (dimN t) (2 * dimH t) (2 * dimW t) (dimC t))"

definition pool_contract :: "nat \<Rightarrow> (tensor \<Rightarrow> tensor) \<Rightarrow> bool" where
  "pool_contract s f \<longleftrightarrow>
     (\<forall>t. is_tensor t \<longrightarrow>
        has_shape (f t) (dimN t) ((dimH t + s - 1) div s) ((dimW t + s - 1) div s) (dimC t))"

definition attention_contract :: "(bool \<Rightarrow> tensor \<Rightarrow> tensor) \<Rightarrow> bool" where
  "attention_contract f \<longleftrightarrow>
     (\<forall>training t. is_tensor t \<longrightarrow> has_shape (f training t) (dimN t) (dimH t) (dimW t) (dimC t))"

subsection \<open>Residual up-sampling block\<close>

record rub =
  rub_output_channels :: nat
  rub_input_channels :: nat
  rub_upsample :: "tensor \<Rightarrow> tensor"
  rub_identity_conv :: "bool \<Rightarrow> tensor \<Rightarrow> tensor"
  rub_mask_pool :: "tensor \<Rightarrow> tensor"
  rub_cbn_1 :: cbn_layer
  rub_conv_1 :: "bool \<Rightarrow> tensor \<Rightarrow> tensor"
  rub_cbn_2 :: cbn_layer
  rub_conv_2 :: "bool \<Rightarrow> tensor \<Rightarrow> tensor"

text \<open>
  \<^verbatim>\<open>process_identity\<close> is the \<^verbatim>\<open>Sequential\<close> of the up-sampling layer and the spectrally
  normalized 1x1 convolution. It is called without a mode; Keras hands the mode of the
  enclosing call to the layers of the sequence that take one.
\<close>

definition process_identity :: "rub \<Rightarrow> bool \<Rightarrow> tensor \<Rightarrow> tensor" where
  "process_identity self training x = rub_identity_conv self training (rub_upsample self x)"

definition ResidualUpsamplingBlock_call ::
  "rub \<Rightarrow> tensor \<Rightarrow> tensor \<Rightarrow> tensor \<Rightarrow> bool \<Rightarrow> error + tensor" where
  "ResidualUpsamplingBlock_call self x z_k masks training =
     (let identity = process_identity self training x in
      bindE (ConditionalBatchNormalization_call (rub_cbn_1 self) x z_k) (\<lambda>x.
      let x = ReLU x;
          masks = rub_mask_pool self masks in
      bindE (concat_axis3 x masks) (\<lambda>x.
      let x = rub_upsample self x;
          x = rub_conv_1 self training x in
      bindE (ConditionalBatchNormalization_call (rub_cbn_2 self) x z_k) (\<lambda>x.
      let x = ReLU x;
          x = rub_conv_2 self training x in
      tadd x identity))))"

text \<open>
  The two paths of the block as the specification words them: the main path is
  conditional batch norm on \<open>z\<close>, rectifier, concatenation of the pooled mask,
  up-sampling, 3x3 convolution, conditional batch norm, rectifier, 3x3 convolution; the
  identity path is up-sampling, then the 1x1 convolution.
\<close>

definition main_path :: "rub \<Rightarrow> tensor \<Rightarrow> tensor \<Rightarrow> tensor \<Rightarrow> bool \<Rightarrow> error + tensor" where
  "main_path self x z_k masks training =
     bindE (ConditionalBatchNormalization_call (rub_cbn_1 self) x z_k) (\<lambda>a.
     bindE (concat_axis3 (ReLU a) (rub_mask_pool self masks)) (\<lambda>b.
     bindE (ConditionalBatchNormalization_call (rub_cbn_2 self)
              (rub_conv_1 self training (rub_upsample self b)) z_k) (\<lambda>c.
     Inr (rub_conv_2 self training (ReLU c)))))"

definition identity_path :: "rub \<Rightarrow> tensor \<Rightarrow> bool \<Rightarrow> tensor" where
  "identity_path self x training = rub_identity_conv self training (rub_upsample self x)"

text \<open>
  What \<^verbatim>\<open>ResidualUpsamplingBlock.__init__(init_gain, base_channels, input_factor,
  output_factor, mask_scale)\<close> and the first call leave.
\<close>

definition ResidualUpsamplingBlock_built ::
  "nat \<Rightarrow> nat \<Rightarrow> nat \<Rightarrow> nat \<Rightarrow> nat \<Rightarrow> rub \<Rightarrow> bool" where
  "ResidualUpsamplingBlock_built base_channels input_factor output_factor mask_scale n_input self \<longleftrightarrow>
     rub_output_channels self = base_channels * output_factor \<and>
     rub_input_channels self = base_channels * input_factor \<and>
     upsample_contract (rub_upsample self) \<and>
     conv_same_contract (rub_output_channels self) (rub_identity_conv self) \<and>
     pool_contract mask_scale (rub_mask_pool self) \<and>
     cbn_built n_input (rub_input_channels self) (rub_cbn_1 self) \<and>
     conv_same_contract (rub_output_channels self) (rub_conv_1 self) \<and>
     cbn_built n_input (rub_output_channels self) (rub_cbn_2 self) \<and>
     conv_same_contract (rub_output_channels self) (rub_conv_2 self)"

subsection \<open>Output block\<close>

record output_block =
  ob_output_channels :: nat
  ob_cbn :: cbn_layer
  ob_conv :: "bool \<Rightarrow> tensor \<Rightarrow> tensor"

definition OutputBlock_call ::
  "output_block \<Rightarrow> tensor \<Rightarrow> tensor \<Rightarrow> tensor \<Rightarrow> bool \<Rightarrow> error + tensor" where
  "OutputBlock_call self x z_k masks training =
     bindE (ConditionalBatchNormalization_call (ob_cbn self) x z_k) (\<lambda>x.
     let x = ReLU x in
     bindE (concat_axis3 x masks) (\<lambda>x.
     let x = ob_conv self training x in
     Inr (tanh_activation x)))"

definition OutputBlock_built :: "nat \<Rightarrow> nat \<Rightarrow> nat \<Rightarrow> output_block \<Rightarrow> bool" where
  "OutputBlock_built base_channels output_factor n_input self \<longleftrightarrow>
     ob_output_channels self = base_channels * output_factor \<and>
     cbn_built n_input (ob_output_channels self) (ob_cbn self) \<and>
     conv_same_contract 3 (ob_conv self)"

section \<open>The class generator\<close>

record class_generator =
  cg_k :: int
  cg_base_channels :: nat
  block_1 :: input_block
  up_res_block_1 :: rub
  up_res_block_2 :: rub
  up_res_block_3 :: rub
  up_res_block_4 :: rub
  block_3 :: "bool \<Rightarrow> tensor \<Rightarrow> tensor"
  block_4 :: rub
  block_5 :: output_block

text \<open>
  What \<^verbatim>\<open>ClassGenerator.__init__(init_gain, k, base_channels)\<close> and the first call leave:
  the channel factors 16, 16, 8, 4, 2, 1 and the mask scales 32, 16, 8, 4, 2 of the
  constructor.
\<close>

definition ClassGenerator_built :: "nat \<Rightarrow> class_generator \<Rightarrow> bool" where
  "ClassGenerator_built n_input self \<longleftrightarrow>
     InputBlock_built (cg_base_channels self) 16 n_input (block_1 self) \<and>
     ResidualUpsamplingBlock_built (cg_base_channels self) 16 16 32 n_input (up_res_block_1 self) \<and>
     ResidualUpsamplingBlock_built (cg_base_channels self) 16 8 16 n_input (up_res_block_2 self) \<and>
     ResidualUpsamplingBlock_built (cg_base_channels self) 8 4 8 n_input (up_res_block_3 self) \<and>
     ResidualUpsamplingBlock_built (cg_base_channels self) 4 2 4 n_input (up_res_block_4 self) \<and>
     attention_contract (block_3 self) \<and>
     ResidualUpsamplingBlock_built (cg_base_channels self) 2 1 2 n_input (block_4 self) \<and>
     OutputBlock_built (cg_base_channels self) 1 n_input (block_5 self)"

text \<open>
  The pipeline that redraws the region of the generator's own class: the value that
  \<^verbatim>\<open>block_5\<close> returns, before it is multiplied by the mask.
\<close>

definition redraw_region :: "class_generator \<Rightarrow> tensor \<Rightarrow> tensor \<Rightarrow> bool \<Rightarrow> error + tensor" where
  "redraw_region self z_k batch_masks_k training =
     bindE (InputBlock_call (block_1 self) z_k) (\<lambda>x.
     bindE (ResidualUpsamplingBlock_call (up_res_block_1 self) x z_k batch_masks_k training) (\<lambda>x.
     bindE (ResidualUpsamplingBlock_call (up_res_block_2 self) x z_k batch_masks_k training) (\<lambda>x.
     bindE (ResidualUpsamplingBlock_call (up_res_block_3 self) x z_k batch_masks_k training) (\<lambda>x.
     bindE (ResidualUpsamplingBlock_call (up_res_block_4 self) x z_k batch_masks_k training) (\<lambda>x.
     let x = block_3 self training x in
     bindE (ResidualUpsamplingBlock_call (block_4 self) x z_k batch_masks_k training) (\<lambda>x.
     OutputBlock_call (block_5 self) x z_k batch_masks_k training))))))"

text \<open>
  The loop \<^verbatim>\<open>for k in range(n_regions)\<close>. Its state is the pair of the two local
  variables it assigns: \<^verbatim>\<open>batch_images_fake\<close>, and \<^verbatim>\<open>batch_region_k_fake\<close>, which has no
  value until the branch of the generator's own class has run.
\<close>

fun for_loop :: "('s \<Rightarrow> nat \<Rightarrow> error + 's) \<Rightarrow> nat list \<Rightarrow> 's \<Rightarrow> error + 's" where
  "for_loop body [] s = Inr s"
| "for_loop body (k # ks) s = bindE (body s k) (for_loop body ks)"

definition ClassGenerator_body ::
  "(tensor \<Rightarrow> tensor \<Rightarrow> bool \<Rightarrow> error + tensor) \<Rightarrow> int \<Rightarrow> tensor \<Rightarrow> tensor \<Rightarrow> tensor \<Rightarrow> bool \<Rightarrow>
   tensor \<times> tensor option \<Rightarrow> nat \<Rightarrow> error + tensor \<times> tensor option" where
  "ClassGenerator_body redraw self_k batch_images_real batch_masks_logits z_k training st k =
     (case st of (batch_images_fake, batch_region_k_fake) \<Rightarrow>
        bindE (select_channel (Softmax_axis3 batch_masks_logits) k) (\<lambda>batch_masks_k.
        if int k = self_k then
          bindE (redraw z_k batch_masks_k training) (\<lambda>raw.
          bindE (tmul raw batch_masks_k) (\<lambda>region.
          bindE (tadd batch_images_fake region) (\<lambda>fake.
          Inr (fake, Some region))))
        else
          bindE (tmul batch_images_real batch_masks_k) (\<lambda>kept.
          bindE (tadd batch_images_fake kept) (\<lambda>fake.
          Inr (fake, batch_region_k_fake)))))"

text \<open>
  \<^verbatim>\<open>ClassGenerator.call\<close>, with the pipeline of the own class and the value of \<^verbatim>\<open>self.k\<close> as
  parameters. \<open>random_normal\<close> stands for \<^verbatim>\<open>tf.random.normal\<close>: the tensor that the draw of
  this call returns for the shape it is asked for.
\<close>

definition ClassGenerator_call_with ::
  "(tensor \<Rightarrow> tensor \<Rightarrow> bool \<Rightarrow> error + tensor) \<Rightarrow> int \<Rightarrow> (nat \<Rightarrow> nat \<Rightarrow> nat \<Rightarrow> nat \<Rightarrow> tensor) \<Rightarrow>
   tensor \<Rightarrow> tensor \<Rightarrow> nat \<Rightarrow> bool \<Rightarrow> error + tensor \<times> tensor \<times> matrix" where
  "ClassGenerator_call_with redraw self_k random_normal batch_images_real batch_masks_logits
       n_input training =
     (let batch_size = dimN batch_masks_logits;
          n_regions = dimC batch_masks_logits;
          z_k = random_normal batch_size 1 1 n_input;
          batch_images_fake = zeros (dimN batch_images_real) (dimH batch_images_real)
                                (dimW batch_images_real) (dimC batch_images_real)
      in
      bindE (for_loop (ClassGenerator_body redraw self_k batch_images_real batch_masks_logits
                         z_k training)
               [0..<n_regions] (batch_images_fake, None)) (\<lambda>st.
      case st of (batch_images_fake, batch_region_k_fake) \<Rightarrow>
        (case batch_region_k_fake of
           None \<Rightarrow> Inl UnboundLocalError
         | Some region \<Rightarrow>
             bindE (squeeze_spatial z_k) (\<lambda>z. Inr (batch_images_fake, region, z)))))"

definition ClassGenerator_call ::
  "class_generator \<Rightarrow> (nat \<Rightarrow> nat \<Rightarrow> nat \<Rightarrow> nat \<Rightarrow> tensor) \<Rightarrow>
   tensor \<Rightarrow> tensor \<Rightarrow> nat \<Rightarrow> bool \<Rightarrow> error + tensor \<times> tensor \<times> matrix" where
  "ClassGenerator_call self = ClassGenerator_call_with (redraw_region self) (cg_k self)"

definition normal_contract :: "(nat \<Rightarrow> nat \<Rightarrow> nat \<Rightarrow> nat \<Rightarrow> tensor) \<Rightarrow> bool" where
  "normal_contract random_normal \<longleftrightarrow> (\<forall>B H W C. has_shape (random_normal B H W C) B H W C)"

subsection \<open>The loop in single precision\<close>

text \<open>
  The tensors of the code hold 32-bit floats. Every operation of the tensor engine
  returns the exact result rounded to the nearest number with a significand of 24 bits,
  a tie going to the even significand; below \<open>2 powi - 126\<close> the spacing stays
  \<open>2 powi - 149\<close>. Overflow to infinity is left out: the inputs below stay far from it.
\<close>

definition round_half_even :: "real \<Rightarrow> int" where
  "round_half_even x =
     (let n = \<lfloor>x\<rfloor>; r = x - of_int n in
      if r < 1 / 2 then n else if 1 / 2 < r then n + 1 else if even n then n else n + 1)"

definition float32_exponent :: "real \<Rightarrow> int" where
  "float32_exponent x = max \<lfloor>log 2 \<bar>x\<bar>\<rfloor> (- 126)"

definition fl32 :: "real \<Rightarrow> real" where
  "fl32 x =
     (if x = 0 then 0
      else let ulp = 2 powi (float32_exponent x - 23) in of_int (round_half_even (x / ulp)) * ulp)"







section \<open>The generator\<close>

text \<open>
  \<^verbatim>\<open>InformationConservationNetwork\<close> comes from \<^verbatim>\<open>information_network\<close>, which is not part
  of the file: it is a function of the region, the class index and the mode, and it may
  fail. The generator's state that the claims speak of is the list of the calls the
  network has received.
\<close>

record generator =
  gen_n_classes :: nat
  gen_n_input :: nat
  class_generators :: "class_generator list"
  information_network :: "tensor \<Rightarrow> int \<Rightarrow> bool \<Rightarrow> error + matrix"

type_synonym call_log = "(tensor \<times> int \<times> bool) list"

datatype gen_result = FakeOnly tensor | FakeNoiseEstimate tensor matrix matrix

text \<open>Python's \<^verbatim>\<open>xs[k]\<close> on a list: a negative index counts from the end.\<close>

definition py_index :: "'a list \<Rightarrow> int \<Rightarrow> error + 'a" where
  "py_index xs k =
     (let n = int (length xs); j = (if k < 0 then n + k else k) in
      if 0 \<le> j \<and> j < n then Inr (xs ! nat j) else Inl IndexError)"

definition Generator_call ::
  "generator \<Rightarrow> (nat \<Rightarrow> nat \<Rightarrow> nat \<Rightarrow> nat \<Rightarrow> tensor) \<Rightarrow> tensor \<Rightarrow> tensor \<Rightarrow> int \<Rightarrow> bool \<Rightarrow> bool \<Rightarrow>
   call_log \<Rightarrow> (error + gen_result) \<times> call_log" where
  "Generator_call self random_normal batch_images_real batch_masks_logits k update_generator
       training calls =
     (case bindE (py_index (class_generators self) k) (\<lambda>cg.
             ClassGenerator_call cg random_normal batch_images_real batch_masks_logits
               (gen_n_input self) training) of
        Inl e \<Rightarrow> (Inl e, calls)
      | Inr (batch_images_fake, batch_region_fake, batch_z_k) \<Rightarrow>
          (let (batch_z_k_hat, calls) =
                 (if update_generator
                  then (Some (information_network self batch_region_fake k training),
                        calls @ [(batch_region_fake, k, training)])
                  else (None, calls))
           in
           if update_generator then
             (case batch_z_k_hat of
                None \<Rightarrow> (Inl UnboundLocalError, calls)
              | Some (Inl e) \<Rightarrow> (Inl e, calls)
              | Some (Inr z_hat) \<Rightarrow> (Inr (FakeNoiseEstimate batch_images_fake batch_z_k z_hat), calls))
           else (Inr (FakeOnly batch_images_fake), calls)))"


definition in_unit_range :: "tensor \<Rightarrow> bool" where
  "in_unit_range t \<longleftrightarrow>
     (\<forall>b<dimN t. \<forall>i<dimH t. \<forall>j<dimW t. \<forall>c<dimC t. - 1 \<le> tnth t b i j c \<and> tnth t b i j c \<le> 1)"

text \<open>
  What \<^verbatim>\<open>Generator.__init__(n_classes, n_input, init_gain, base_channels)\<close> leaves: one
  class generator for every class index, in order.
\<close>

definition Generator_built :: "nat \<Rightarrow> generator \<Rightarrow> bool" where
  "Generator_built base_channels self \<longleftrightarrow>
     length (class_generators self) = gen_n_classes self \<and>
     (\<forall>k < gen_n_classes self.
        cg_k (class_generators self ! k) = int k \<and>
        cg_base_channels (class_generators self ! k) = base_channels \<and>
        ClassGenerator_built (gen_n_input self) (class_generators self ! k))"

section \<open>A concrete generator\<close>

text \<open>
  Layers and weights that meet what the constructors build, for the examples below: the
  convolutions ignore their input and return their bias everywhere, up-sampling repeats
  pixels, pooling keeps the first pixel of every window, attention is the identity, the
  dense layer and the normalization have zero kernels, and the information network
  estimates zero.
\<close>

definition conv_const :: "nat \<Rightarrow> real \<Rightarrow> bool \<Rightarrow> tensor \<Rightarrow> tensor" where
  "conv_const filters v training t = const_tensor (dimN t) (dimH t) (dimW t) filters v"

definition upsample_nearest :: "tensor \<Rightarrow> tensor" where
  "upsample_nearest t =
     Tensor (dimN t) (2 * dimH t) (2 * dimW t) (dimC t)
       (map (\<lambda>img. concat (map (\<lambda>row. replicate 2 (concat (map (replicate 2) row))) img))
          (elems t))"

definition pool_subsample :: "nat \<Rightarrow> tensor \<Rightarrow> tensor" where
  "pool_subsample s t =
     Tensor (dimN t) ((dimH t + s - 1) div s) ((dimW t + s - 1) div s) (dimC t)
       (map (\<lambda>img. map (\<lambda>i. map (\<lambda>j. img ! (i * s) ! (j * s)) [0..<(dimW t + s - 1) div s])
                      [0..<(dimH t + s - 1) div s])
          (elems t))"

definition attention_identity :: "bool \<Rightarrow> tensor \<Rightarrow> tensor" where
  "attention_identity training t = t"

definition cbn_example :: "nat \<Rightarrow> nat \<Rightarrow> cbn_layer" where
  "cbn_example n filters =
     \<lparr>gamma = \<lparr>kernel = replicate n (replicate filters 0), bias = replicate filters 1\<rparr>,
      beta = \<lparr>kernel = replicate n (replicate filters 0), bias = replicate filters 0\<rparr>\<rparr>"

definition input_block_example :: "nat \<Rightarrow> nat \<Rightarrow> nat \<Rightarrow> input_block" where
  "input_block_example base_channels output_factor n_input =
     \<lparr>ib_output_channels = base_channels * output_factor,
      ib_dense = \<lparr>kernel = replicate n_input (replicate (base_channels * output_factor * 4 * 4) 0),
                  bias = replicate (base_channels * output_factor * 4 * 4) 0\<rparr>,
      ib_cbn = cbn_example n_input (base_channels * output_factor)\<rparr>"

definition rub_example :: "nat \<Rightarrow> nat \<Rightarrow> nat \<Rightarrow> nat \<Rightarrow> nat \<Rightarrow> rub" where
  "rub_example base_channels input_factor output_factor mask_scale n_input =
     \<lparr>rub_output_channels = base_channels * output_factor,
      rub_input_channels = base_channels * input_factor,
      rub_upsample = upsample_nearest,
      rub_identity_conv = conv_const (base_channels * output_factor) 0,
      rub_mask_pool = pool_subsample mask_scale,
      rub_cbn_1 = cbn_example n_input (base_channels * input_factor),
      rub_conv_1 = conv_const (base_channels * output_factor) 0,
      rub_cbn_2 = cbn_example n_input (base_channels * output_factor),
      rub_conv_2 = conv_const (base_channels * output_factor) 0\<rparr>"

definition output_block_example :: "nat \<Rightarrow> nat \<Rightarrow> nat \<Rightarrow> output_block" where
  "output_block_example base_channels output_factor n_input =
     \<lparr>ob_output_channels = base_channels * output_factor,
      ob_cbn = cbn_example n_input (base_channels * output_factor),
      ob_conv = conv_const 3 1\<rparr>"

definition class_generator_example :: "int \<Rightarrow> nat \<Rightarrow> nat \<Rightarrow> class_generator" where
  "class_generator_example k base_channels n_input =
     \<lparr>cg_k = k,
      cg_base_channels = base_channels,
      block_1 = input_block_example base_channels 16 n_input,
      up_res_block_1 = rub_example base_channels 16 16 32 n_input,
      up_res_block_2 = rub_example base_channels 16 8 16 n_input,
      up_res_block_3 = rub_example base_channels 8 4 8 n_input,
      up_res_block_4 = rub_example base_channels 4 2 4 n_input,
      block_3 = attention_identity,
      block_4 = rub_example base_channels 2 1 2 n_input,
      block_5 = output_block_example base_channels 1 n_input\<rparr>"

definition information_network_example :: "nat \<Rightarrow> tensor \<Rightarrow> int \<Rightarrow> bool \<Rightarrow> error + matrix" where
  "information_network_example n_output region k training =
     Inr (Matrix (dimN region) n_output (replicate (dimN region) (replicate n_output 0)))"

definition generator_example :: "nat \<Rightarrow> nat \<Rightarrow> nat \<Rightarrow> generator" where
  "generator_example n_classes n_input base_channels =
     \<lparr>gen_n_classes = n_classes,
      gen_n_input = n_input,
      class_generators =
        map (\<lambda>k. class_generator_example (int k) base_channels n_input) [0..<n_classes],
      information_network = information_network_example n_input\<rparr>"

section \<open>Properties of the tensor operations\<close>

subsection \<open>Sequencing\<close>

lemma bindE_Inr [simp]: "bindE (Inr x) f = f x"
  by (simp add: bindE_def)

lemma bindE_Inl [simp]: "bindE (Inl e) f = Inl e"
  by (simp add: bindE_def)

lemma bindE_eq_Inr: "bindE m f = Inr y \<longleftrightarrow> (\<exists>x. m = Inr x \<and> f x = Inr y)"
  by (cases m) simp_all

subsection \<open>Shapes and elements\<close>

lemma is_tensor_len0: "is_tensor t \<Longrightarrow> length (elems t) = dimN t"
  by (simp add: is_tensor_def)

lemma is_tensor_len1:
  assumes "is_tensor t" "b < dimN t"
  shows "length (elems t ! b) = dimH t"
proof -
  have "elems t ! b \<in> set (elems t)"
    using assms by (simp add: is_tensor_def)
  then show ?thesis
    using assms(1) by (simp add: is_tensor_def)
qed

lemma is_tensor_len2:
  assumes "is_tensor t" "b < dimN t" "i < dimH t"
  shows "length (elems t ! b ! i) = dimW t"
proof -
  have b: "elems t ! b \<in> set (elems t)"
    using assms by (simp add: is_tensor_def)
  have "elems t ! b ! i \<in> set (elems t ! b)"
    using assms is_tensor_len1 [OF assms(1,2)] by simp
  with b show ?thesis
    using assms(1) unfolding is_tensor_def by blast
qed

lemma is_tensor_len3:
  assumes "is_tensor t" "b < dimN t" "i < dimH t" "j < dimW t"
  shows "length (pixel t b i j) = dimC t"
proof -
  have b: "elems t ! b \<in> set (elems t)"
    using assms by (simp add: is_tensor_def)
  have i: "elems t ! b ! i \<in> set (elems t ! b)"
    using assms is_tensor_len1 [OF assms(1,2)] by simp
  have "elems t ! b ! i ! j \<in> set (elems t ! b ! i)"
    using assms is_tensor_len2 [OF assms(1-3)] by simp
  with b i show ?thesis
    using assms(1) unfolding is_tensor_def pixel_def by blast
qed

lemmas is_tensor_lens = is_tensor_len0 is_tensor_len1 is_tensor_len2 is_tensor_len3

lemma is_tensorI:
  assumes "length (elems t) = dimN t"
    and "\<And>b. b < dimN t \<Longrightarrow> length (elems t ! b) = dimH t"
    and "\<And>b i. b < dimN t \<Longrightarrow> i < dimH t \<Longrightarrow> length (elems t ! b ! i) = dimW t"
    and "\<And>b i j. b < dimN t \<Longrightarrow> i < dimH t \<Longrightarrow> j < dimW t \<Longrightarrow> length (elems t ! b ! i ! j) = dimC t"
  shows "is_tensor t"
  unfolding is_tensor_def
proof (intro conjI ballI)
  show "length (elems t) = dimN t"
    by (rule assms(1))
next
  fix img assume "img \<in> set (elems t)"
  then obtain b where b: "b < dimN t" "img = elems t ! b"
    using assms(1) by (auto simp: in_set_conv_nth)
  show h: "length img = dimH t"
    using b assms(2) by simp
  fix row assume "row \<in> set img"
  then obtain i where i: "i < dimH t" "row = img ! i"
    using h by (auto simp: in_set_conv_nth)
  show w: "length row = dimW t"
    using b i assms(3) by simp
  fix px assume "px \<in> set row"
  then obtain j where j: "j < dimW t" "px = row ! j"
    using w by (auto simp: in_set_conv_nth)
  show "length px = dimC t"
    using b i j assms(4) by simp
qed

lemma has_shapeD:
  assumes "has_shape t B H W C"
  shows "is_tensor t" "dimN t = B" "dimH t = H" "dimW t = W" "dimC t = C"
  using assms by (simp_all add: has_shape_def)

lemma has_shape_self: "is_tensor t \<Longrightarrow> has_shape t (dimN t) (dimH t) (dimW t) (dimC t)"
  by (simp add: has_shape_def)

lemma tensor_eqI:
  assumes s: "has_shape s B H W C" and t: "has_shape t B H W C"
    and eq: "\<And>b i j c. b < B \<Longrightarrow> i < H \<Longrightarrow> j < W \<Longrightarrow> c < C \<Longrightarrow> tnth s b i j c = tnth t b i j c"
  shows "s = t"
proof -
  note sd = has_shapeD [OF s] and td = has_shapeD [OF t]
  have "elems s = elems t"
  proof (rule nth_equalityI)
    show "length (elems s) = length (elems t)"
      using sd td by (simp add: is_tensor_def)
  next
    fix b assume "b < length (elems s)"
    then have b: "b < B"
      using sd by (simp add: is_tensor_def)
    show "elems s ! b = elems t ! b"
    proof (rule nth_equalityI)
      show "length (elems s ! b) = length (elems t ! b)"
        using b sd td is_tensor_len1 [of s b] is_tensor_len1 [of t b] by simp
    next
      fix i assume "i < length (elems s ! b)"
      then have i: "i < H"
        using b sd is_tensor_len1 [of s b] by simp
      show "elems s ! b ! i = elems t ! b ! i"
      proof (rule nth_equalityI)
        show "length (elems s ! b ! i) = length (elems t ! b ! i)"
          using b i sd td is_tensor_len2 [of s b i] is_tensor_len2 [of t b i] by simp
      next
        fix j assume "j < length (elems s ! b ! i)"
        then have j: "j < W"
          using b i sd is_tensor_len2 [of s b i] by simp
        have ls: "length (pixel s b i j) = C"
          using b i j sd is_tensor_len3 [of s b i j] by simp
        have lt: "length (pixel t b i j) = C"
          using b i j td is_tensor_len3 [of t b i j] by simp
        have "pixel s b i j = pixel t b i j"
        proof (rule nth_equalityI)
          show "length (pixel s b i j) = length (pixel t b i j)"
            using ls lt by simp
        next
          fix c assume "c < length (pixel s b i j)"
          then have "c < C"
            using ls by simp
          from eq [OF b i j this] show "pixel s b i j ! c = pixel t b i j ! c"
            by (simp add: tnth_def)
        qed
        then show "elems s ! b ! i ! j = elems t ! b ! i ! j"
          by (simp add: pixel_def)
      qed
    qed
  qed
  with sd td show ?thesis
    by (simp add: tensor.expand)
qed

lemma image_eqI:
  assumes s: "is_tensor s" and t: "is_tensor t" and b: "b < dimN s" and b': "b' < dimN t"
    and dims: "dimH s = dimH t" "dimW s = dimW t" "dimC s = dimC t"
    and eq: "\<And>i j k. i < dimH s \<Longrightarrow> j < dimW s \<Longrightarrow> k < dimC s \<Longrightarrow>
                tnth s b i j k = tnth t b' i j k"
  shows "elems s ! b = elems t ! b'"
proof (rule nth_equalityI)
  note ls = is_tensor_lens [OF s] and lt = is_tensor_lens [OF t]
  show "length (elems s ! b) = length (elems t ! b')"
    using ls(2) [OF b] lt(2) [OF b'] dims by simp
  fix i assume "i < length (elems s ! b)"
  then have i: "i < dimH s" and i': "i < dimH t"
    using ls(2) [OF b] dims by simp_all
  show "elems s ! b ! i = elems t ! b' ! i"
  proof (rule nth_equalityI)
    show "length (elems s ! b ! i) = length (elems t ! b' ! i)"
      using ls(3) [OF b i] lt(3) [OF b' i'] dims by simp
    fix j assume "j < length (elems s ! b ! i)"
    then have j: "j < dimW s" and j': "j < dimW t"
      using ls(3) [OF b i] dims by simp_all
    have "pixel s b i j = pixel t b' i j"
    proof (rule nth_equalityI)
      show "length (pixel s b i j) = length (pixel t b' i j)"
        using ls(4) [OF b i j] lt(4) [OF b' i' j'] dims by simp
      fix k assume "k < length (pixel s b i j)"
      then have "k < dimC s"
        using ls(4) [OF b i j] by simp
      from eq [OF i j this] show "pixel s b i j ! k = pixel t b' i j ! k"
        by (simp add: tnth_def)
    qed
    then show "elems s ! b ! i ! j = elems t ! b' ! i ! j"
      by (simp add: pixel_def)
  qed
qed

lemma has_shape_tmap [simp]: "has_shape (tmap f t) B H W C \<longleftrightarrow> has_shape t B H W C"
  by (auto simp: has_shape_def is_tensor_def tmap_def)

lemma tnth_tmap:
  assumes "is_tensor t" "b < dimN t" "i < dimH t" "j < dimW t" "c < dimC t"
  shows "tnth (tmap f t) b i j c = f (tnth t b i j c)"
  using assms is_tensor_lens [OF assms(1)]
  by (simp add: tmap_def tnth_def pixel_def)

lemma has_shape_const_tensor [simp]: "has_shape (const_tensor B H W C v) B H W C"
  by (simp add: has_shape_def is_tensor_def const_tensor_def)

lemma tnth_const_tensor:
  "b < B \<Longrightarrow> i < H \<Longrightarrow> j < W \<Longrightarrow> c < C \<Longrightarrow> tnth (const_tensor B H W C v) b i j c = v"
  by (simp add: const_tensor_def tnth_def pixel_def)

lemma dims_const_tensor [simp]:
  "dimN (const_tensor B H W C v) = B" "dimH (const_tensor B H W C v) = H"
  "dimW (const_tensor B H W C v) = W" "dimC (const_tensor B H W C v) = C"
  by (simp_all add: const_tensor_def)

lemma dims_zeros [simp]:
  "dimN (zeros B H W C) = B" "dimH (zeros B H W C) = H"
  "dimW (zeros B H W C) = W" "dimC (zeros B H W C) = C"
  by (simp_all add: zeros_def)

lemma has_shape_zeros [simp]: "has_shape (zeros B H W C) B H W C"
  by (simp add: zeros_def)

lemma tnth_zeros: "b < B \<Longrightarrow> i < H \<Longrightarrow> j < W \<Longrightarrow> c < C \<Longrightarrow> tnth (zeros B H W C) b i j c = 0"
  by (simp add: zeros_def tnth_const_tensor)

lemma tmap_const_tensor: "tmap f (const_tensor B H W C v) = const_tensor B H W C (f v)"
  by (simp add: tmap_def const_tensor_def)

subsection \<open>The normalized exponential\<close>

lemma pixel_Softmax_axis3:
  assumes "is_tensor t" "b < dimN t" "i < dimH t" "j < dimW t"
  shows "pixel (Softmax_axis3 t) b i j = softmax_vec (pixel t b i j)"
  using assms is_tensor_lens [OF assms(1)]
  by (simp add: Softmax_axis3_def pixel_def)

lemma sum_list_exp_pos:
  fixes xs :: "real list"
  assumes "xs \<noteq> []"
  shows "0 < sum_list (map exp xs)"
proof -
  from assms obtain y ys where xs: "xs = y # ys"
    by (cases xs) auto
  have "0 \<le> sum_list (map exp ys)"
    by (rule sum_list_nonneg) auto
  then show ?thesis
    by (simp add: xs add_pos_nonneg)
qed

lemma softmax_vec_sum:
  assumes "xs \<noteq> []"
  shows "sum_list (softmax_vec xs) = 1"
proof -
  have "sum_list (map (\<lambda>x. exp x / c) xs) = sum_list (map exp xs) / c" for c :: real
    by (induction xs) (simp_all add: add_divide_distrib)
  then have "sum_list (softmax_vec xs) = sum_list (map exp xs) / sum_list (map exp xs)"
    unfolding softmax_vec_def by simp
  with sum_list_exp_pos [OF assms] show ?thesis
    by simp
qed

lemma softmax_vec_range:
  assumes "p \<in> set (softmax_vec xs)"
  shows "0 \<le> p \<and> p \<le> 1"
proof -
  from assms obtain x where x: "x \<in> set xs" and p: "p = exp x / sum_list (map exp xs)"
    by (auto simp: softmax_vec_def)
  then have ne: "xs \<noteq> []"
    by auto
  have "exp x \<le> sum_list (map exp xs)"
    by (rule member_le_sum_list) (use x in auto)
  with sum_list_exp_pos [OF ne] show ?thesis
    by (simp add: p)
qed

lemma has_shape_Softmax_axis3 [simp]:
  "has_shape (Softmax_axis3 t) B H W C \<longleftrightarrow> has_shape t B H W C"
  by (auto simp: has_shape_def is_tensor_def Softmax_axis3_def softmax_vec_def)

lemma tnth_Softmax_axis3:
  assumes "has_shape t B H W C" "b < B" "i < H" "j < W"
  shows "(\<Sum>k<C. tnth (Softmax_axis3 t) b i j k) = (if C = 0 then 0 else 1)"
    and "k < C \<Longrightarrow> 0 \<le> tnth (Softmax_axis3 t) b i j k"
proof -
  note td = has_shapeD [OF assms(1)]
  have px: "pixel (Softmax_axis3 t) b i j = softmax_vec (pixel t b i j)"
    using pixel_Softmax_axis3 [of t b i j] td assms by simp
  have len: "length (pixel t b i j) = C"
    using is_tensor_len3 [of t b i j] td assms by simp
  have "(\<Sum>k<C. tnth (Softmax_axis3 t) b i j k) = sum_list (softmax_vec (pixel t b i j))"
    using len by (simp add: tnth_def px sum_list_sum_nth softmax_vec_def atLeast0LessThan)
  also have "\<dots> = (if C = 0 then 0 else 1)"
    using len softmax_vec_sum [of "pixel t b i j"] by (auto simp: softmax_vec_def)
  finally show "(\<Sum>k<C. tnth (Softmax_axis3 t) b i j k) = (if C = 0 then 0 else 1)" .
  show "0 \<le> tnth (Softmax_axis3 t) b i j k" if "k < C"
  proof -
    have "k < length (softmax_vec (pixel t b i j))"
      using that len by (simp add: softmax_vec_def)
    then have "softmax_vec (pixel t b i j) ! k \<in> set (softmax_vec (pixel t b i j))"
      by (rule nth_mem)
    then show ?thesis
      using softmax_vec_range by (simp add: tnth_def px)
  qed
qed

lemma Softmax_axis3_const_tensor:
  assumes "0 < C"
  shows "Softmax_axis3 (const_tensor B H W C v) = const_tensor B H W C (1 / real C)"
proof -
  have "softmax_vec (replicate C v) = replicate C (1 / real C)"
    using assms by (simp add: softmax_vec_def sum_list_replicate)
  then show ?thesis
    by (simp add: Softmax_axis3_def const_tensor_def)
qed



subsection \<open>Broadcasting\<close>

lemma bidx_less:
  assumes "bdim a b = Some n" "i < n"
  shows "bidx a i < a" "bidx b i < b"
  using assms by (auto simp: bdim_def bidx_def split: if_splits)

lemma length_bzip: "bdim (length xs) (length ys) = Some n \<Longrightarrow> length (bzip f xs ys) = n"
  by (auto simp: bdim_def bzip_def split: if_splits)

lemma nth_bzip:
  assumes "bdim (length xs) (length ys) = Some n" "i < n"
  shows "bzip f xs ys ! i = f (xs ! bidx (length xs) i) (ys ! bidx (length ys) i)"
  using assms by (auto simp: bdim_def bzip_def bidx_def split: if_splits)

lemma broadcast_elems:
  fixes f :: "real \<Rightarrow> real \<Rightarrow> real"
  assumes s: "is_tensor s" and t: "is_tensor t"
    and bn: "bdim (dimN s) (dimN t) = Some n" and bh: "bdim (dimH s) (dimH t) = Some h"
    and bw: "bdim (dimW s) (dimW t) = Some w" and bc: "bdim (dimC s) (dimC t) = Some c"
  defines "r \<equiv> bzip (bzip (bzip (bzip f))) (elems s) (elems t)"
  shows "length r = n"
    and "b < n \<Longrightarrow> length (r ! b) = h"
    and "b < n \<Longrightarrow> i < h \<Longrightarrow> length (r ! b ! i) = w"
    and "b < n \<Longrightarrow> i < h \<Longrightarrow> j < w \<Longrightarrow> length (r ! b ! i ! j) = c"
    and "b < n \<Longrightarrow> i < h \<Longrightarrow> j < w \<Longrightarrow> k < c \<Longrightarrow>
         r ! b ! i ! j ! k =
           f (tnth s (bidx (dimN s) b) (bidx (dimH s) i) (bidx (dimW s) j) (bidx (dimC s) k))
             (tnth t (bidx (dimN t) b) (bidx (dimH t) i) (bidx (dimW t) j) (bidx (dimC t) k))"
proof -
  note ls = is_tensor_lens [OF s] and lt = is_tensor_lens [OF t]
  have bn': "bdim (length (elems s)) (length (elems t)) = Some n"
    using bn ls(1) lt(1) by simp
  show "length r = n"
    unfolding r_def using bn' by (rule length_bzip)
  {
    assume b: "b < n"
    let ?sb = "bidx (dimN s) b" and ?tb = "bidx (dimN t) b"
    have sb: "?sb < dimN s" and tb: "?tb < dimN t"
      using bidx_less [OF bn b] by simp_all
    have rb: "r ! b = bzip (bzip (bzip f)) (elems s ! ?sb) (elems t ! ?tb)"
      unfolding r_def using nth_bzip [OF bn' b] ls(1) lt(1) by simp
    have bh': "bdim (length (elems s ! ?sb)) (length (elems t ! ?tb)) = Some h"
      using bh ls(2) [OF sb] lt(2) [OF tb] by simp
    show "length (r ! b) = h"
      unfolding rb using bh' by (rule length_bzip)
    {
      assume i: "i < h"
      let ?si = "bidx (dimH s) i" and ?ti = "bidx (dimH t) i"
      have si: "?si < dimH s" and ti: "?ti < dimH t"
        using bidx_less [OF bh i] by simp_all
      have rbi: "r ! b ! i = bzip (bzip f) (elems s ! ?sb ! ?si) (elems t ! ?tb ! ?ti)"
        unfolding rb using nth_bzip [OF bh' i] ls(2) [OF sb] lt(2) [OF tb] by simp
      have bw': "bdim (length (elems s ! ?sb ! ?si)) (length (elems t ! ?tb ! ?ti)) = Some w"
        using bw ls(3) [OF sb si] lt(3) [OF tb ti] by simp
      show "length (r ! b ! i) = w"
        unfolding rbi using bw' by (rule length_bzip)
      {
        assume j: "j < w"
        let ?sj = "bidx (dimW s) j" and ?tj = "bidx (dimW t) j"
        have sj: "?sj < dimW s" and tj: "?tj < dimW t"
          using bidx_less [OF bw j] by simp_all
        have rbij: "r ! b ! i ! j = bzip f (pixel s ?sb ?si ?sj) (pixel t ?tb ?ti ?tj)"
          unfolding rbi pixel_def
          using nth_bzip [OF bw' j] ls(3) [OF sb si] lt(3) [OF tb ti] by simp
        have bc': "bdim (length (pixel s ?sb ?si ?sj)) (length (pixel t ?tb ?ti ?tj)) = Some c"
          using bc ls(4) [OF sb si sj] lt(4) [OF tb ti tj] by simp
        show "length (r ! b ! i ! j) = c"
          unfolding rbij using bc' by (rule length_bzip)
        {
          assume k: "k < c"
          show "r ! b ! i ! j ! k =
            f (tnth s ?sb ?si ?sj (bidx (dimC s) k)) (tnth t ?tb ?ti ?tj (bidx (dimC t) k))"
            unfolding rbij tnth_def
            using nth_bzip [OF bc' k] ls(4) [OF sb si sj] lt(4) [OF tb ti tj] by simp
        }
      }
    }
  }
qed

lemma bidx_id [simp]: "i < n \<Longrightarrow> bidx n i = i"
  by (auto simp: bidx_def)

lemma bidx_1 [simp]: "bidx (Suc 0) i = 0"
  by (simp add: bidx_def)

lemma bdim_same [simp]: "bdim a a = Some a"
  by (simp add: bdim_def)

lemma bdim_1_left [simp]: "bdim (Suc 0) b = Some b"
  by (simp add: bdim_def)

lemma bdim_1_right [simp]: "bdim a (Suc 0) = Some a"
  by (auto simp: bdim_def)

lemma tensor_binop_broadcast:
  assumes s: "has_shape s N H W C" and t: "has_shape t N' H' W' C'"
    and bn: "bdim N N' = Some n" and bh: "bdim H H' = Some h"
    and bw: "bdim W W' = Some w" and bc: "bdim C C' = Some c"
  shows "\<exists>r. tensor_binop f s t = Inr r \<and> has_shape r n h w c \<and>
           (\<forall>b<n. \<forall>i<h. \<forall>j<w. \<forall>k<c.
              tnth r b i j k = f (tnth s (bidx N b) (bidx H i) (bidx W j) (bidx C k))
                                 (tnth t (bidx N' b) (bidx H' i) (bidx W' j) (bidx C' k)))"
proof -
  note sd = has_shapeD [OF s] and td = has_shapeD [OF t]
  define r where "r = Tensor n h w c (bzip (bzip (bzip (bzip f))) (elems s) (elems t))"
  have bs: "bdim (dimN s) (dimN t) = Some n" "bdim (dimH s) (dimH t) = Some h"
    "bdim (dimW s) (dimW t) = Some w" "bdim (dimC s) (dimC t) = Some c"
    using sd td bn bh bw bc by simp_all
  note be = broadcast_elems [OF sd(1) td(1) bs, where f = f]
  have "tensor_binop f s t = Inr r"
    by (simp add: tensor_binop_def bs r_def)
  moreover have "is_tensor r"
    by (rule is_tensorI) (simp_all add: r_def be)
  then have "has_shape r n h w c"
    by (simp add: has_shape_def r_def)
  moreover have "tnth r b i j k = f (tnth s (bidx N b) (bidx H i) (bidx W j) (bidx C k))
                                 (tnth t (bidx N' b) (bidx H' i) (bidx W' j) (bidx C' k))"
    if "b < n" "i < h" "j < w" "k < c" for b i j k
    using be(5) [OF that] sd td by (simp add: r_def tnth_def pixel_def)
  ultimately show ?thesis
    by blast
qed

lemma tensor_binop_same_shape:
  assumes s: "has_shape s B H W C" and t: "has_shape t B H W C"
  shows "\<exists>r. tensor_binop f s t = Inr r \<and> has_shape r B H W C \<and>
           (\<forall>b<B. \<forall>i<H. \<forall>j<W. \<forall>k<C. tnth r b i j k = f (tnth s b i j k) (tnth t b i j k))"
  using tensor_binop_broadcast [OF s t, where n = B and h = H and w = W and c = C and f = f] by simp

lemma tensor_binop_mask:
  assumes s: "has_shape s B H W C" and t: "has_shape t B H W 1"
  shows "\<exists>r. tensor_binop f s t = Inr r \<and> has_shape r B H W C \<and>
           (\<forall>b<B. \<forall>i<H. \<forall>j<W. \<forall>k<C. tnth r b i j k = f (tnth s b i j k) (tnth t b i j 0))"
  using tensor_binop_broadcast [OF s t, where n = B and h = H and w = W and c = C and f = f] by simp

lemma tensor_binop_per_channel:
  assumes s: "has_shape s B 1 1 C" and t: "has_shape t B H W C"
  shows "\<exists>r. tensor_binop f s t = Inr r \<and> has_shape r B H W C \<and>
           (\<forall>b<B. \<forall>i<H. \<forall>j<W. \<forall>k<C. tnth r b i j k = f (tnth s b 0 0 k) (tnth t b i j k))"
  using tensor_binop_broadcast [OF s t, where n = B and h = H and w = W and c = C and f = f] by simp

lemma tensor_binop_per_channel':
  assumes s: "has_shape s B H W C" and t: "has_shape t B 1 1 C"
  shows "\<exists>r. tensor_binop f s t = Inr r \<and> has_shape r B H W C \<and>
           (\<forall>b<B. \<forall>i<H. \<forall>j<W. \<forall>k<C. tnth r b i j k = f (tnth s b i j k) (tnth t b 0 0 k))"
  using tensor_binop_broadcast [OF s t, where n = B and h = H and w = W and c = C and f = f] by simp

lemma tensor_binop_const_tensor:
  "tensor_binop f (const_tensor B H W C x) (const_tensor B H W C y)
     = Inr (const_tensor B H W C (f x y))"
proof -
  have sx: "has_shape (const_tensor B H W C x) B H W C"
    and sy: "has_shape (const_tensor B H W C y) B H W C"
    by (rule has_shape_const_tensor)+
  from tensor_binop_same_shape [OF sx sy, where f = f]
  obtain r where r: "tensor_binop f (const_tensor B H W C x) (const_tensor B H W C y) = Inr r"
    "has_shape r B H W C"
    "\<And>b i j k. b < B \<Longrightarrow> i < H \<Longrightarrow> j < W \<Longrightarrow> k < C \<Longrightarrow>
       tnth r b i j k = f (tnth (const_tensor B H W C x) b i j k) (tnth (const_tensor B H W C y) b i j k)"
    by auto
  have "r = const_tensor B H W C (f x y)"
    by (rule tensor_eqI [OF r(2) has_shape_const_tensor]) (simp add: r(3) tnth_const_tensor)
  with r(1) show ?thesis
    by simp
qed

lemma tensor_binop_const_tensor_mask:
  "tensor_binop f (const_tensor B H W C x) (const_tensor B H W 1 y)
     = Inr (const_tensor B H W C (f x y))"
proof -
  have sx: "has_shape (const_tensor B H W C x) B H W C"
    and sy: "has_shape (const_tensor B H W 1 y) B H W 1"
    by (rule has_shape_const_tensor)+
  from tensor_binop_mask [OF sx sy, where f = f]
  obtain r where r: "tensor_binop f (const_tensor B H W C x) (const_tensor B H W 1 y) = Inr r"
    "has_shape r B H W C"
    "\<And>b i j k. b < B \<Longrightarrow> i < H \<Longrightarrow> j < W \<Longrightarrow> k < C \<Longrightarrow>
       tnth r b i j k = f (tnth (const_tensor B H W C x) b i j k) (tnth (const_tensor B H W 1 y) b i j 0)"
    by auto
  have "r = const_tensor B H W C (f x y)"
    by (rule tensor_eqI [OF r(2) has_shape_const_tensor]) (simp add: r(3) tnth_const_tensor)
  with r(1) show ?thesis
    by simp
qed

subsection \<open>Concatenation, slicing and reshaping\<close>

lemma concat_axis3_shape:
  assumes s: "has_shape s B H W C" and t: "has_shape t B H W C'"
  shows "\<exists>r. concat_axis3 s t = Inr r \<and> has_shape r B H W (C + C')"
proof -
  note sd = has_shapeD [OF s] and td = has_shapeD [OF t]
  note ls = is_tensor_lens [OF sd(1)] and lt = is_tensor_lens [OF td(1)]
  define r where "r = Tensor B H W (C + C') (map2 (map2 (map2 (@))) (elems s) (elems t))"
  have "concat_axis3 s t = Inr r"
    using sd td by (simp add: concat_axis3_def r_def)
  moreover have "is_tensor r"
    by (rule is_tensorI) (use sd td ls lt in \<open>simp_all add: r_def pixel_def\<close>)
  ultimately show ?thesis
    by (auto simp: has_shape_def r_def)
qed

lemma concat_axis3_InrD:
  assumes "concat_axis3 s t = Inr r"
  shows "dimN t = dimN s" "dimH t = dimH s" "dimW t = dimW s"
  using assms by (auto simp: concat_axis3_def split: if_splits)

lemma select_channel_shape:
  assumes t: "has_shape t B H W C" and k: "k < C"
  shows "\<exists>r. select_channel t k = Inr r \<and> has_shape r B H W 1 \<and>
           (\<forall>b<B. \<forall>i<H. \<forall>j<W. tnth r b i j 0 = tnth t b i j k)"
proof -
  note td = has_shapeD [OF t]
  note lt = is_tensor_lens [OF td(1)]
  define r where "r = Tensor B H W 1 (map (map (map (\<lambda>px. [px ! k]))) (elems t))"
  have "select_channel t k = Inr r"
    using td k by (simp add: select_channel_def r_def)
  moreover have "is_tensor r"
    by (rule is_tensorI) (use td lt in \<open>simp_all add: r_def pixel_def\<close>)
  moreover have "tnth r b i j 0 = tnth t b i j k" if "b < B" "i < H" "j < W" for b i j
    using that td lt by (simp add: r_def tnth_def pixel_def)
  ultimately show ?thesis
    by (auto simp: has_shape_def r_def)
qed

lemma select_channel_const_tensor:
  "k < C \<Longrightarrow> select_channel (const_tensor B H W C v) k = Inr (const_tensor B H W 1 v)"
  by (simp add: select_channel_def const_tensor_def)

lemma squeeze_spatial_zeros:
  "squeeze_spatial (zeros B 1 1 n) = Inr (Matrix B n (replicate B (replicate n 0)))"
  by (simp add: squeeze_spatial_def zeros_def const_tensor_def)

lemma length_concat_uniform:
  "(\<forall>x \<in> set xss. length x = m) \<Longrightarrow> length (concat xss) = length xss * m"
  by (induction xss) simp_all

lemma length_flatten:
  assumes "is_tensor t"
  shows "length (flatten t) = dimN t * dimH t * dimW t * dimC t"
proof -
  have 1: "length (concat (elems t)) = dimN t * dimH t"
    using assms length_concat_uniform [of "elems t" "dimH t"] by (simp add: is_tensor_def)
  have "\<forall>row \<in> set (concat (elems t)). length row = dimW t"
    using assms by (auto simp: is_tensor_def)
  from length_concat_uniform [OF this] 1
  have 2: "length (concat (concat (elems t))) = dimN t * dimH t * dimW t"
    by simp
  have "\<forall>px \<in> set (concat (concat (elems t))). length px = dimC t"
    using assms by (auto simp: is_tensor_def)
  from length_concat_uniform [OF this] 2 show ?thesis
    by (simp add: flatten_def)
qed

lemma length_chunks [simp]: "length (chunks n xs) = length xs div n"
  by (simp add: chunks_def)

lemma length_chunk:
  assumes "ys \<in> set (chunks n xs)"
  shows "length ys = n"
proof -
  from assms obtain i where i: "i < length xs div n" and ys: "ys = take n (drop (i * n) xs)"
    by (auto simp: chunks_def)
  have "Suc i * n \<le> (length xs div n) * n"
    using i by (intro mult_le_mono1) simp
  also have "\<dots> \<le> length xs"
    by simp
  finally show ?thesis
    by (simp add: ys)
qed

lemma reshape_infer_batch_shape:
  assumes t: "is_tensor t" and pos: "0 < h * w * c"
    and dvd: "(dimN t * dimH t * dimW t * dimC t) mod (h * w * c) = 0"
  shows "\<exists>r. reshape_infer_batch t h w c = Inr r \<and>
           has_shape r (dimN t * dimH t * dimW t * dimC t div (h * w * c)) h w c"
proof -
  let ?total = "dimN t * dimH t * dimW t * dimC t"
  define r where "r = Tensor (?total div (h * w * c)) h w c
    (map (\<lambda>img. map (chunks c) (chunks (w * c) img)) (chunks (h * w * c) (flatten t)))"
  have hwc: "0 < h" "0 < w" "0 < c"
    using pos by simp_all
  have "reshape_infer_batch t h w c = Inr r"
    using pos dvd by (simp add: reshape_infer_batch_def r_def Let_def)
  moreover have "is_tensor r"
    unfolding is_tensor_def
  proof (intro conjI ballI)
    show "length (elems r) = dimN r"
      by (simp add: r_def length_flatten [OF t])
  next
    fix img assume "img \<in> set (elems r)"
    then obtain flat where flat: "flat \<in> set (chunks (h * w * c) (flatten t))"
      and img: "img = map (chunks c) (chunks (w * c) flat)"
      by (auto simp: r_def)
    have lf: "length flat = h * (w * c)"
      using length_chunk [OF flat] by (simp add: mult.assoc)
    show "length img = dimH r"
      using hwc by (simp add: img r_def lf)
    fix row assume "row \<in> set img"
    then obtain rflat where rflat: "rflat \<in> set (chunks (w * c) flat)" and row: "row = chunks c rflat"
      by (auto simp: img)
    show "length row = dimW r"
      using hwc length_chunk [OF rflat] by (simp add: row r_def)
    fix px assume "px \<in> set row"
    then show "length px = dimC r"
      using length_chunk [of px c rflat] by (simp add: row r_def)
  qed
  ultimately show ?thesis
    by (auto simp: has_shape_def r_def)
qed

lemma reshape_infer_batch_Inl:
  "reshape_infer_batch t h w c = Inl e \<longleftrightarrow>
     e = ShapeError \<and>
     (if h * w * c = 0 then dimN t * dimH t * dimW t * dimC t \<noteq> 0
      else (dimN t * dimH t * dimW t * dimC t) mod (h * w * c) \<noteq> 0)"
  by (auto simp: reshape_infer_batch_def Let_def)

subsection \<open>Framework layers\<close>

lemma has_shape_LayerNormalization_axes12 [simp]:
  "has_shape (LayerNormalization_axes12 t) B H W C \<longleftrightarrow> has_shape t B H W C"
  by (auto simp: has_shape_def is_tensor_def LayerNormalization_axes12_def instance_norm_image_def)

lemma pixel_LayerNormalization_axes12:
  assumes t: "has_shape t B H W C" and "b < B" "i < H" "j < W"
  shows "pixel (LayerNormalization_axes12 t) b i j = instance_norm_image (elems t ! b) ! i ! j"
  using assms has_shapeD [OF t] is_tensor_lens [OF has_shapeD(1) [OF t]]
  by (simp add: LayerNormalization_axes12_def pixel_def)

lemma pointwise_affine_shape:
  assumes "has_shape t B H W C" "length (kernel L) = C"
  shows "\<exists>r. pointwise_affine L t = Inr r \<and> has_shape r B H W (length (bias L))"
  using assms by (auto simp: pointwise_affine_def has_shape_def is_tensor_def affine_px_def)

lemma pointwise_affine_values:
  assumes t: "has_shape t B H W C" and L: "length (kernel L) = C"
  shows "\<exists>r. pointwise_affine L t = Inr r \<and> has_shape r B H W (length (bias L)) \<and>
           (\<forall>b<B. \<forall>i<H. \<forall>j<W. pixel r b i j = affine_px L (pixel t b i j))"
proof -
  note td = has_shapeD [OF t]
  note lt = is_tensor_lens [OF td(1)]
  from pointwise_affine_shape [OF t L] obtain r
    where r: "pointwise_affine L t = Inr r" "has_shape r B H W (length (bias L))"
    by blast
  have "pixel r b i j = affine_px L (pixel t b i j)" if "b < B" "i < H" "j < W" for b i j
    using r(1) that td lt L by (auto simp: pointwise_affine_def pixel_def)
  with r show ?thesis
    by blast
qed

lemma tanh_activation_range:
  assumes "is_tensor t" "b < dimN t" "i < dimH t" "j < dimW t" "k < dimC t"
  shows "\<bar>tnth (tanh_activation t) b i j k\<bar> < 1"
  using tnth_tmap [OF assms, of tanh] tanh_real_lt_1 [of "tnth t b i j k"]
    tanh_real_gt_neg1 [of "tnth t b i j k"]
  by (simp add: tanh_activation_def abs_less_iff)

lemma conv_same_contractD:
  "conv_same_contract filters f \<Longrightarrow> has_shape t B H W C \<Longrightarrow> has_shape (f training t) B H W filters"
  by (auto simp: conv_same_contract_def has_shape_def)

lemma upsample_contractD:
  "upsample_contract f \<Longrightarrow> has_shape t B H W C \<Longrightarrow> has_shape (f t) B (2 * H) (2 * W) C"
  by (auto simp: upsample_contract_def has_shape_def)

lemma pool_contractD:
  "pool_contract s f \<Longrightarrow> has_shape t B H W C \<Longrightarrow>
   has_shape (f t) B ((H + s - 1) div s) ((W + s - 1) div s) C"
  by (auto simp: pool_contract_def has_shape_def)

lemma attention_contractD:
  "attention_contract f \<Longrightarrow> has_shape t B H W C \<Longrightarrow> has_shape (f training t) B H W C"
  by (auto simp: attention_contract_def has_shape_def)

section \<open>The concrete generator is one that the constructors build\<close>

lemma conv_const_contract: "conv_same_contract filters (conv_const filters v)"
  by (simp add: conv_same_contract_def conv_const_def)

lemma length_concat_replicate2: "length (concat (map (replicate 2) xs)) = 2 * length xs"
  by (induction xs) simp_all

lemma upsample_nearest_contract: "upsample_contract upsample_nearest"
  unfolding upsample_contract_def
proof (intro allI impI)
  fix t assume t: "is_tensor t"
  have "is_tensor (upsample_nearest t)"
    unfolding is_tensor_def
  proof (intro conjI ballI)
    show "length (elems (upsample_nearest t)) = dimN (upsample_nearest t)"
      using t by (simp add: upsample_nearest_def is_tensor_def)
  next
    fix img' assume "img' \<in> set (elems (upsample_nearest t))"
    then obtain img where img: "img \<in> set (elems t)"
      and img': "img' = concat (map (\<lambda>row. replicate 2 (concat (map (replicate 2) row))) img)"
      by (auto simp: upsample_nearest_def)
    have "length img' = length img * 2"
      unfolding img' by (induction img) simp_all
    then show "length img' = dimH (upsample_nearest t)"
      using t img by (simp add: upsample_nearest_def is_tensor_def)
    fix row' assume "row' \<in> set img'"
    then obtain row where row: "row \<in> set img" and row': "row' = concat (map (replicate 2) row)"
      by (auto simp: img')
    show "length row' = dimW (upsample_nearest t)"
      using t img row by (simp add: row' length_concat_replicate2 upsample_nearest_def is_tensor_def)
    fix px assume "px \<in> set row'"
    then have "px \<in> set row"
      by (auto simp: row')
    then show "length px = dimC (upsample_nearest t)"
      using t img row by (simp add: upsample_nearest_def is_tensor_def)
  qed
  then show "has_shape (upsample_nearest t) (dimN t) (2 * dimH t) (2 * dimW t) (dimC t)"
    by (simp add: has_shape_def upsample_nearest_def)
qed

lemma pool_index_less:
  assumes "i < (n + s - 1) div s"
  shows "i * s < (n :: nat)"
proof -
  have s: "0 < s"
    using assms by (cases s) simp_all
  have "Suc i \<le> (n + s - 1) div s"
    using assms by simp
  then have "Suc i * s \<le> ((n + s - 1) div s) * s"
    by (rule mult_le_mono1)
  also have "\<dots> \<le> n + s - 1"
    by simp
  finally show ?thesis
    using s by simp
qed

lemma pool_subsample_contract: "pool_contract s (pool_subsample s)"
  unfolding pool_contract_def
proof (intro allI impI)
  fix t assume t: "is_tensor t"
  note lt = is_tensor_lens [OF t]
  have "is_tensor (pool_subsample s t)"
  proof (rule is_tensorI)
    fix b i j
    assume b: "b < dimN (pool_subsample s t)" and i: "i < dimH (pool_subsample s t)"
      and j: "j < dimW (pool_subsample s t)"
    have b': "b < dimN t" and i': "i * s < dimH t" and j': "j * s < dimW t"
      using b i j pool_index_less [of i "dimH t" s] pool_index_less [of j "dimW t" s]
      by (simp_all add: pool_subsample_def)
    have "elems (pool_subsample s t) ! b ! i ! j = pixel t b (i * s) (j * s)"
      using b i j lt(1) by (simp add: pool_subsample_def pixel_def)
    then show "length (elems (pool_subsample s t) ! b ! i ! j) = dimC (pool_subsample s t)"
      using lt(4) [OF b' i' j'] by (simp add: pool_subsample_def)
  qed (use lt(1) in \<open>simp_all add: pool_subsample_def\<close>)
  then show "has_shape (pool_subsample s t) (dimN t) ((dimH t + s - 1) div s)
               ((dimW t + s - 1) div s) (dimC t)"
    by (simp add: has_shape_def pool_subsample_def)
qed

lemma attention_identity_contract: "attention_contract attention_identity"
  by (simp add: attention_contract_def attention_identity_def has_shape_def)

lemma cbn_example_built: "cbn_built n filters (cbn_example n filters)"
  by (simp add: cbn_built_def affine_built_def cbn_example_def)

lemma rub_example_built:
  "ResidualUpsamplingBlock_built base_channels input_factor output_factor mask_scale n_input
     (rub_example base_channels input_factor output_factor mask_scale n_input)"
  by (simp add: ResidualUpsamplingBlock_built_def rub_example_def conv_const_contract
      upsample_nearest_contract pool_subsample_contract cbn_example_built)

lemma input_block_example_built:
  "0 < base_channels * output_factor \<Longrightarrow>
   InputBlock_built base_channels output_factor n_input
     (input_block_example base_channels output_factor n_input)"
  by (simp add: InputBlock_built_def input_block_example_def cbn_example_built affine_built_def)

lemma output_block_example_built:
  "OutputBlock_built base_channels output_factor n_input
     (output_block_example base_channels output_factor n_input)"
  by (simp add: OutputBlock_built_def output_block_example_def cbn_example_built conv_const_contract)

lemma class_generator_example_built:
  "0 < base_channels \<Longrightarrow>
   ClassGenerator_built n_input (class_generator_example k base_channels n_input)"
  by (simp add: ClassGenerator_built_def class_generator_example_def input_block_example_built
      rub_example_built attention_identity_contract output_block_example_built)

lemma generator_example_nth:
  "k < n_classes \<Longrightarrow>
   class_generators (generator_example n_classes n_input base_channels) ! k
     = class_generator_example (int k) base_channels n_input"
  by (simp add: generator_example_def)

lemma generator_example_built:
  assumes pos: "0 < base_channels"
  shows "Generator_built base_channels (generator_example n_classes n_input base_channels)"
proof -
  let ?G = "generator_example n_classes n_input base_channels"
  have "cg_k (class_generators ?G ! k) = int k \<and>
        cg_base_channels (class_generators ?G ! k) = base_channels \<and>
        ClassGenerator_built (gen_n_input ?G) (class_generators ?G ! k)"
    if "k < gen_n_classes ?G" for k
  proof -
    from that have k: "k < n_classes"
      by (simp add: generator_example_def)
    have "gen_n_input ?G = n_input"
      by (simp add: generator_example_def)
    then show ?thesis
      unfolding generator_example_nth [OF k]
      using class_generator_example_built [OF pos, of n_input "int k"]
      by (simp add: class_generator_example_def)
  qed
  then show ?thesis
    by (simp add: Generator_built_def generator_example_def)
qed

section \<open>Conditional batch normalization\<close>

lemma ConditionalBatchNormalization_call_no_channel:
  "dimC z = 0 \<Longrightarrow> ConditionalBatchNormalization_call self x z = Inl ShapeError"
  by (simp add: ConditionalBatchNormalization_call_def Conv2D_1x1_def)

lemma ConditionalBatchNormalization_call_values:
  assumes built: "cbn_built n F self" and x: "has_shape x B H W F" and z: "has_shape z B 1 1 n"
    and n: "0 < n"
  shows "\<exists>y. ConditionalBatchNormalization_call self x z = Inr y \<and> has_shape y B H W F \<and>
           (\<forall>b<B. \<forall>i<H. \<forall>j<W. \<forall>k<F.
              tnth y b i j k =
                affine_px (gamma self) (pixel z b 0 0) ! k *
                  (instance_norm_image (elems x ! b) ! i ! j ! k) +
                affine_px (beta self) (pixel z b 0 0) ! k)"
proof -
  have kg: "length (kernel (gamma self)) = n" "length (bias (gamma self)) = F"
    and kb: "length (kernel (beta self)) = n" "length (bias (beta self)) = F"
    using built by (simp_all add: cbn_built_def affine_built_def)
  from pointwise_affine_values [OF z kg(1)] kg(2) obtain g
    where g: "Conv2D_1x1 (gamma self) z = Inr g" "has_shape g B 1 1 F"
      "\<And>b. b < B \<Longrightarrow> pixel g b 0 0 = affine_px (gamma self) (pixel z b 0 0)"
    using n has_shapeD [OF z] by (auto simp: Conv2D_1x1_def)
  from pointwise_affine_values [OF z kb(1)] kb(2) obtain bt
    where bt: "Conv2D_1x1 (beta self) z = Inr bt" "has_shape bt B 1 1 F"
      "\<And>b. b < B \<Longrightarrow> pixel bt b 0 0 = affine_px (beta self) (pixel z b 0 0)"
    using n has_shapeD [OF z] by (auto simp: Conv2D_1x1_def)
  have ln: "has_shape (LayerNormalization_axes12 x) B H W F"
    using x by simp
  from tensor_binop_per_channel [OF g(2) ln, of "(*)"] obtain sc
    where sc: "tmul g (LayerNormalization_axes12 x) = Inr sc" "has_shape sc B H W F"
      "\<And>b i j k. b < B \<Longrightarrow> i < H \<Longrightarrow> j < W \<Longrightarrow> k < F \<Longrightarrow>
         tnth sc b i j k = tnth g b 0 0 k * tnth (LayerNormalization_axes12 x) b i j k"
    by (auto simp: tmul_def)
  from tensor_binop_per_channel' [OF sc(2) bt(2), of "(+)"] obtain y
    where y: "tadd sc bt = Inr y" "has_shape y B H W F"
      "\<And>b i j k. b < B \<Longrightarrow> i < H \<Longrightarrow> j < W \<Longrightarrow> k < F \<Longrightarrow>
         tnth y b i j k = tnth sc b i j k + tnth bt b 0 0 k"
    by (auto simp: tadd_def)
  have "ConditionalBatchNormalization_call self x z = Inr y"
    by (simp add: ConditionalBatchNormalization_call_def g(1) bt(1) sc(1) y(1))
  moreover have "tnth y b i j k =
      affine_px (gamma self) (pixel z b 0 0) ! k * (instance_norm_image (elems x ! b) ! i ! j ! k) +
      affine_px (beta self) (pixel z b 0 0) ! k"
    if "b < B" "i < H" "j < W" "k < F" for b i j k
    using y(3) [OF that] sc(3) [OF that] g(3) [OF that(1)] bt(3) [OF that(1)]
      pixel_LayerNormalization_axes12 [OF x that(1-3)]
    by (simp add: tnth_def)
  ultimately show ?thesis
    using y(2) by blast
qed

lemma ConditionalBatchNormalization_call_shape:
  assumes "cbn_built n F self" and "has_shape x B H W F" and "has_shape z B 1 1 n" and "0 < n"
  shows "\<exists>y. ConditionalBatchNormalization_call self x z = Inr y \<and> has_shape y B H W F"
  using ConditionalBatchNormalization_call_values [OF assms] by blast

text \<open>
  Claim C10. The output of \<^verbatim>\<open>ConditionalBatchNormalization.call\<close> for a batch element
  depends only on that element's feature map and conditioning vector, and not on the
  mode: two calls, in any two modes, on batches of any two sizes return, and where an
  element of the one batch and an element of the other have the same feature map and the
  same conditioning vector, the two outputs for these elements are equal. This is for a
  conditioning vector of at least one channel; on a conditioning vector of no channel
  the two calls fail alike, in the 1x1 convolutions.
\<close>

theorem ConditionalBatchNormalization_per_element:
  assumes built: "cbn_built n F self"
    and x: "has_shape x B H W F" and z: "has_shape z B 1 1 n"
    and x': "has_shape x' B' H W F" and z': "has_shape z' B' 1 1 n"
    and b: "b < B" and b': "b' < B'"
    and same_x: "elems x ! b = elems x' ! b'" and same_z: "elems z ! b = elems z' ! b'"
  shows "(0 < n \<longrightarrow>
            (\<exists>y y'. ConditionalBatchNormalization_dunder_call self training x z = Inr y \<and>
                ConditionalBatchNormalization_dunder_call self training' x' z' = Inr y' \<and>
                elems y ! b = elems y' ! b')) \<and>
         (n = 0 \<longrightarrow>
            ConditionalBatchNormalization_dunder_call self training x z = Inl ShapeError \<and>
            ConditionalBatchNormalization_dunder_call self training' x' z' = Inl ShapeError)"
proof (intro conjI impI)
  assume "n = 0"
  then have "dimC z = 0" "dimC z' = 0"
    using has_shapeD [OF z] has_shapeD [OF z'] by simp_all
  then show "ConditionalBatchNormalization_dunder_call self training x z = Inl ShapeError"
    and "ConditionalBatchNormalization_dunder_call self training' x' z' = Inl ShapeError"
    by (simp_all add: ConditionalBatchNormalization_dunder_call_def
          ConditionalBatchNormalization_call_no_channel)
next
  assume n: "0 < n"
  from ConditionalBatchNormalization_call_values [OF built x z n] obtain y
    where y: "ConditionalBatchNormalization_call self x z = Inr y" "has_shape y B H W F"
      "\<And>b i j k. b < B \<Longrightarrow> i < H \<Longrightarrow> j < W \<Longrightarrow> k < F \<Longrightarrow>
         tnth y b i j k =
           affine_px (gamma self) (pixel z b 0 0) ! k *
             (instance_norm_image (elems x ! b) ! i ! j ! k) +
           affine_px (beta self) (pixel z b 0 0) ! k"
    by blast
  from ConditionalBatchNormalization_call_values [OF built x' z' n] obtain y'
    where y': "ConditionalBatchNormalization_call self x' z' = Inr y'" "has_shape y' B' H W F"
      "\<And>b i j k. b < B' \<Longrightarrow> i < H \<Longrightarrow> j < W \<Longrightarrow> k < F \<Longrightarrow>
         tnth y' b i j k =
           affine_px (gamma self) (pixel z' b 0 0) ! k *
             (instance_norm_image (elems x' ! b) ! i ! j ! k) +
           affine_px (beta self) (pixel z' b 0 0) ! k"
    by blast
  note yd = has_shapeD [OF y(2)] and yd' = has_shapeD [OF y'(2)]
  have pz: "pixel z b 0 0 = pixel z' b' 0 0"
    using same_z by (simp add: pixel_def)
  have "elems y ! b = elems y' ! b'"
  proof (rule image_eqI)
    fix i j k assume "i < dimH y" "j < dimW y" "k < dimC y"
    then have ijk: "i < H" "j < W" "k < F"
      using yd by simp_all
    show "tnth y b i j k = tnth y' b' i j k"
      using y(3) [OF b ijk] y'(3) [OF b' ijk] pz same_x by simp
  qed (use yd yd' b b' in simp_all)
  with y(1) y'(1)
  show "\<exists>y y'. ConditionalBatchNormalization_dunder_call self training x z = Inr y \<and>
                ConditionalBatchNormalization_dunder_call self training' x' z' = Inr y' \<and>
                elems y ! b = elems y' ! b'"
    by (simp add: ConditionalBatchNormalization_dunder_call_def)
qed

theorem ConditionalBatchNormalization_per_element_witness:
  "(\<exists>y y'. ConditionalBatchNormalization_dunder_call
             \<lparr>gamma = \<lparr>kernel = [[1]], bias = [0]\<rparr>, beta = \<lparr>kernel = [[0]], bias = [1]\<rparr>\<rparr> True
             (Tensor 2 1 1 1 [[[[1]]], [[[2]]]]) (Tensor 2 1 1 1 [[[[1]]], [[[3]]]]) = Inr y \<and>
          ConditionalBatchNormalization_dunder_call
             \<lparr>gamma = \<lparr>kernel = [[1]], bias = [0]\<rparr>, beta = \<lparr>kernel = [[0]], bias = [1]\<rparr>\<rparr> False
             (Tensor 1 1 1 1 [[[[2]]]]) (Tensor 1 1 1 1 [[[[3]]]]) = Inr y' \<and>
          elems y ! 1 = elems y' ! 0) \<and>
   ConditionalBatchNormalization_dunder_call
      \<lparr>gamma = \<lparr>kernel = [], bias = [0]\<rparr>, beta = \<lparr>kernel = [], bias = [1]\<rparr>\<rparr> True
      (Tensor 1 1 1 1 [[[[2]]]]) (Tensor 1 1 1 0 [[[[]]]]) = Inl ShapeError"
proof -
  have built: "cbn_built 1 1 \<lparr>gamma = \<lparr>kernel = [[1]], bias = [0]\<rparr>, beta = \<lparr>kernel = [[0]], bias = [1]\<rparr>\<rparr>"
    by (simp add: cbn_built_def affine_built_def)
  have built0: "cbn_built 0 1 \<lparr>gamma = \<lparr>kernel = [], bias = [0]\<rparr>, beta = \<lparr>kernel = [], bias = [1]\<rparr>\<rparr>"
    by (simp add: cbn_built_def affine_built_def)
  have x: "has_shape (Tensor 2 1 1 1 [[[[1]]], [[[2]]]]) 2 1 1 1"
    and z: "has_shape (Tensor 2 1 1 1 [[[[1]]], [[[3]]]]) 2 1 1 1"
    and x': "has_shape (Tensor 1 1 1 1 [[[[2]]]]) 1 1 1 1"
    and z': "has_shape (Tensor 1 1 1 1 [[[[3]]]]) 1 1 1 1"
    and z0: "has_shape (Tensor 1 1 1 0 [[[[]]]]) 1 1 1 0"
    by (simp_all add: has_shape_def is_tensor_def)
  have one: "\<exists>y y'. ConditionalBatchNormalization_dunder_call
             \<lparr>gamma = \<lparr>kernel = [[1]], bias = [0]\<rparr>, beta = \<lparr>kernel = [[0]], bias = [1]\<rparr>\<rparr> True
             (Tensor 2 1 1 1 [[[[1]]], [[[2]]]]) (Tensor 2 1 1 1 [[[[1]]], [[[3]]]]) = Inr y \<and>
          ConditionalBatchNormalization_dunder_call
             \<lparr>gamma = \<lparr>kernel = [[1]], bias = [0]\<rparr>, beta = \<lparr>kernel = [[0]], bias = [1]\<rparr>\<rparr> False
             (Tensor 1 1 1 1 [[[[2]]]]) (Tensor 1 1 1 1 [[[[3]]]]) = Inr y' \<and>
          elems y ! 1 = elems y' ! 0"
    using ConditionalBatchNormalization_per_element
      [OF built x z x' z', where b = 1 and b' = 0 and training = True and training' = False]
    by simp
  have none: "ConditionalBatchNormalization_dunder_call
      \<lparr>gamma = \<lparr>kernel = [], bias = [0]\<rparr>, beta = \<lparr>kernel = [], bias = [1]\<rparr>\<rparr> True
      (Tensor 1 1 1 1 [[[[2]]]]) (Tensor 1 1 1 0 [[[[]]]]) = Inl ShapeError"
    using ConditionalBatchNormalization_per_element
      [OF built0 x' z0 x' z0, where b = 0 and b' = 0 and training = True and training' = True]
    by simp
  from one none show ?thesis
    by blast
qed

section \<open>The input block\<close>

lemma InputBlock_call_no_channel:
  assumes built: "InputBlock_built base_channels output_factor 0 self"
    and z: "has_shape z_k B 1 1 0"
  shows "InputBlock_call self z_k = Inl ShapeError"
proof -
  have "dimC z_k = 0"
    using has_shapeD [OF z] by simp
  then have "ConditionalBatchNormalization_call (ib_cbn self) x z_k = Inl ShapeError" for x
    by (rule ConditionalBatchNormalization_call_no_channel)
  then show ?thesis
    by (cases "Dense (ib_dense self) z_k")
      (auto simp: InputBlock_call_def bindE_def reshape_infer_batch_def Let_def Dense_def
         pointwise_affine_def split: if_splits)
qed

lemma InputBlock_reshape:
  assumes d: "has_shape d B 1 1 (oc * 4 * 4)" and pos: "0 < oc"
  shows "\<exists>g. reshape_infer_batch d 4 4 oc = Inr g \<and> has_shape g B 4 4 oc"
proof -
  note dd = has_shapeD [OF d]
  have total: "dimN d * dimH d * dimW d * dimC d = B * (4 * 4 * oc)"
    using dd by simp
  from reshape_infer_batch_shape [OF dd(1), of 4 4 oc] pos total show ?thesis
    by auto
qed

lemma InputBlock_call_steps:
  assumes built: "InputBlock_built base_channels output_factor n_input self"
    and z: "has_shape z_k B 1 1 n_input"
    and n: "0 < n_input"
  defines "oc \<equiv> base_channels * output_factor"
  shows "\<exists>d g y. Dense (ib_dense self) z_k = Inr d \<and> has_shape d B 1 1 (oc * 4 * 4) \<and>
           reshape_infer_batch d 4 4 oc = Inr g \<and> has_shape g B 4 4 oc \<and>
           ConditionalBatchNormalization_call (ib_cbn self) g z_k = Inr y \<and>
           InputBlock_call self z_k = Inr (ReLU y) \<and>
           has_shape (ReLU y) B 4 4 oc"
proof -
  have ch: "ib_output_channels self = oc" and pos: "0 < oc"
    and dense: "length (kernel (ib_dense self)) = n_input" "length (bias (ib_dense self)) = oc * 4 * 4"
    and cbn: "cbn_built n_input oc (ib_cbn self)"
    using built by (auto simp: InputBlock_built_def affine_built_def oc_def)
  from pointwise_affine_shape [OF z dense(1)] dense(2) obtain d
    where d: "Dense (ib_dense self) z_k = Inr d" "has_shape d B 1 1 (oc * 4 * 4)"
    by (auto simp: Dense_def)
  from InputBlock_reshape [OF d(2) pos] obtain g
    where g: "reshape_infer_batch d 4 4 oc = Inr g" "has_shape g B 4 4 oc"
    by blast
  from ConditionalBatchNormalization_call_shape [OF cbn g(2) z n] obtain y
    where y: "ConditionalBatchNormalization_call (ib_cbn self) g z_k = Inr y" "has_shape y B 4 4 oc"
    by blast
  have "InputBlock_call self z_k = Inr (ReLU y)"
    by (simp add: InputBlock_call_def d(1) ch g(1) y(1))
  moreover have "has_shape (ReLU y) B 4 4 oc"
    using y(2) by (auto simp: ReLU_def)
  ultimately show ?thesis
    using d g y(1) by blast
qed

lemma InputBlock_call_shape:
  assumes built: "InputBlock_built base_channels output_factor n_input self"
    and z: "has_shape z_k B 1 1 n_input"
    and n: "0 < n_input"
  shows "\<exists>y. InputBlock_call self z_k = Inr y \<and> has_shape y B 4 4 (base_channels * output_factor)"
  using InputBlock_call_steps [OF built z n] by blast

text \<open>
  Claim C7. On a noise vector of shape \<open>[B, 1, 1, n_input]\<close> with at least one channel,
  \<^verbatim>\<open>InputBlock.call\<close> projects to \<open>output_channels * 4 * 4\<close> units with the dense layer,
  reshapes to the 4x4 grid, normalizes conditionally on the same noise vector and
  applies the rectifier; the result has shape \<open>[B, 4, 4, base_channels * output_factor]\<close>.
  The dimensions of the reshape always match, whatever \<open>n_input\<close> and \<open>output_factor\<close>
  are, because the constructor gives the dense layer \<open>output_channels * 4 * 4\<close> units:
  every tensor of that many channels is reshaped to the grid. The call fails when the
  noise vector has no channel, and then not in the reshape.
\<close>

theorem InputBlock_call_result:
  assumes built: "InputBlock_built base_channels output_factor n_input self"
    and z: "has_shape z_k B 1 1 n_input"
  defines "oc \<equiv> base_channels * output_factor"
  shows "(0 < n_input \<longrightarrow>
            (\<exists>d g y. Dense (ib_dense self) z_k = Inr d \<and> has_shape d B 1 1 (oc * 4 * 4) \<and>
               reshape_infer_batch d 4 4 oc = Inr g \<and> has_shape g B 4 4 oc \<and>
               ConditionalBatchNormalization_call (ib_cbn self) g z_k = Inr y \<and>
               InputBlock_call self z_k = Inr (ReLU y) \<and>
               has_shape (ReLU y) B 4 4 oc)) \<and>
         (n_input = 0 \<longrightarrow> InputBlock_call self z_k = Inl ShapeError) \<and>
         (\<forall>d. has_shape d B 1 1 (length (bias (ib_dense self))) \<longrightarrow>
            (\<exists>g. reshape_infer_batch d 4 4 (ib_output_channels self) = Inr g \<and>
                 has_shape g B 4 4 oc))"
proof (intro conjI impI allI)
  assume "0 < n_input"
  from InputBlock_call_steps [OF built z this]
  show "\<exists>d g y. Dense (ib_dense self) z_k = Inr d \<and> has_shape d B 1 1 (oc * 4 * 4) \<and>
          reshape_infer_batch d 4 4 oc = Inr g \<and> has_shape g B 4 4 oc \<and>
          ConditionalBatchNormalization_call (ib_cbn self) g z_k = Inr y \<and>
          InputBlock_call self z_k = Inr (ReLU y) \<and>
          has_shape (ReLU y) B 4 4 oc"
    by (simp add: oc_def)
next
  assume "n_input = 0"
  with built z show "InputBlock_call self z_k = Inl ShapeError"
    by (auto intro: InputBlock_call_no_channel)
next
  fix d assume d: "has_shape d B 1 1 (length (bias (ib_dense self)))"
  have ch: "ib_output_channels self = oc" and pos: "0 < oc"
    and units: "length (bias (ib_dense self)) = oc * 4 * 4"
    using built by (auto simp: InputBlock_built_def affine_built_def oc_def)
  from InputBlock_reshape [OF d [unfolded units] pos]
  show "\<exists>g. reshape_infer_batch d 4 4 (ib_output_channels self) = Inr g \<and> has_shape g B 4 4 oc"
    by (simp add: ch)
qed

theorem InputBlock_call_result_witness:
  "(\<exists>y. InputBlock_call (input_block_example 1 1 1) (Tensor 1 1 1 1 [[[[0]]]]) = Inr (ReLU y) \<and>
        has_shape (ReLU y) 1 4 4 1) \<and>
   InputBlock_call (input_block_example 1 1 0) (Tensor 1 1 1 0 [[[[]]]]) = Inl ShapeError \<and>
   (\<exists>g. reshape_infer_batch (const_tensor 1 1 1 16 7) 4 4 1 = Inr g \<and> has_shape g 1 4 4 1)"
proof -
  have z: "has_shape (Tensor 1 1 1 1 [[[[0]]]]) 1 1 1 1"
    and z0: "has_shape (Tensor 1 1 1 0 [[[[]]]]) 1 1 1 0"
    by (simp_all add: has_shape_def is_tensor_def)
  have built: "InputBlock_built 1 1 n (input_block_example 1 1 n)" for n
    by (rule input_block_example_built) simp
  have units: "length (bias (ib_dense (input_block_example 1 1 1))) = 16"
    and ch: "ib_output_channels (input_block_example 1 1 1) = 1"
    by (simp_all add: input_block_example_def)
  have d: "has_shape (const_tensor 1 1 1 16 7) 1 1 1 (length (bias (ib_dense (input_block_example 1 1 1))))"
    unfolding units by simp
  from InputBlock_call_result [OF built z]
  have one: "\<exists>y. InputBlock_call (input_block_example 1 1 1) (Tensor 1 1 1 1 [[[[0]]]]) = Inr (ReLU y) \<and>
        has_shape (ReLU y) 1 4 4 1"
    by auto
  from InputBlock_call_result [OF built z0]
  have none: "InputBlock_call (input_block_example 1 1 0) (Tensor 1 1 1 0 [[[[]]]]) = Inl ShapeError"
    by simp
  from InputBlock_call_result [OF built z] d
  have "\<exists>g. reshape_infer_batch (const_tensor 1 1 1 16 7) 4 4
               (ib_output_channels (input_block_example 1 1 1)) = Inr g \<and> has_shape g 1 4 4 1"
    by auto
  with one none show ?thesis
    unfolding ch by blast
qed

theorem InputBlock_call_no_channel_counterexample:
  "InputBlock_call (input_block_example 1 1 0) (const_tensor 1 1 1 0 0) = Inl ShapeError \<and>
   InputBlock_built 1 1 0 (input_block_example 1 1 0) \<and>
   has_shape (const_tensor 1 1 1 0 0) 1 1 1 0 \<and>
   length (bias (ib_dense (input_block_example 1 1 0))) = 4 * 4 * 1 \<and>
   reshape_infer_batch (const_tensor 1 1 1 16 0) 4 4
     (ib_output_channels (input_block_example 1 1 0)) = Inr (const_tensor 1 4 4 1 0)"
proof -
  have built: "InputBlock_built 1 1 0 (input_block_example 1 1 0)"
    by (rule input_block_example_built) simp
  have "InputBlock_call (input_block_example 1 1 0) (const_tensor 1 1 1 0 0) = Inl ShapeError"
    by (rule InputBlock_call_no_channel [OF built has_shape_const_tensor])
  moreover have "reshape_infer_batch (const_tensor 1 1 1 16 0) 4 4 1 = Inr (const_tensor 1 4 4 1 0)"
    by code_simp
  ultimately show ?thesis
    using built by (simp add: input_block_example_def)
qed

section \<open>The residual up-sampling block\<close>

lemma ResidualUpsamplingBlock_call_main_identity:
  "ResidualUpsamplingBlock_call self x z_k masks training =
     bindE (main_path self x z_k masks training) (\<lambda>m. tadd m (identity_path self x training))"
proof (cases "ConditionalBatchNormalization_call (rub_cbn_1 self) x z_k")
  case (Inl e)
  then show ?thesis
    by (simp add: ResidualUpsamplingBlock_call_def main_path_def Let_def)
next
  case a: (Inr a)
  show ?thesis
  proof (cases "concat_axis3 (ReLU a) (rub_mask_pool self masks)")
    case (Inl e)
    then show ?thesis
      by (simp add: ResidualUpsamplingBlock_call_def main_path_def Let_def a)
  next
    case b: (Inr b)
    show ?thesis
      by (cases "ConditionalBatchNormalization_call (rub_cbn_2 self)
                   (rub_conv_1 self training (rub_upsample self b)) z_k")
        (simp_all add: ResidualUpsamplingBlock_call_def main_path_def identity_path_def
          process_identity_def Let_def a b)
  qed
qed

lemma ResidualUpsamplingBlock_call_no_channel:
  "dimC z_k = 0 \<Longrightarrow> ResidualUpsamplingBlock_call self x z_k masks training = Inl ShapeError"
  by (simp add: ResidualUpsamplingBlock_call_def Let_def
      ConditionalBatchNormalization_call_no_channel)

lemma ResidualUpsamplingBlock_call_shape_pos:
  assumes built: "ResidualUpsamplingBlock_built base_channels input_factor output_factor mask_scale n_input self"
    and x: "has_shape x B H W (base_channels * input_factor)"
    and z: "has_shape z_k B 1 1 n_input"
    and m: "is_tensor masks"
    and n: "0 < n_input"
  shows "(\<forall>y. ResidualUpsamplingBlock_call self x z_k masks training = Inr y \<longrightarrow>
            has_shape y B (2 * H) (2 * W) (base_channels * output_factor))"
    and "has_shape masks B Hm Wm Cm \<Longrightarrow> (Hm + mask_scale - 1) div mask_scale = H \<Longrightarrow>
         (Wm + mask_scale - 1) div mask_scale = W \<Longrightarrow>
         \<exists>y. ResidualUpsamplingBlock_call self x z_k masks training = Inr y"
proof -
  let ?cin = "base_channels * input_factor" and ?cout = "base_channels * output_factor"
  have up: "upsample_contract (rub_upsample self)"
    and idc: "conv_same_contract ?cout (rub_identity_conv self)"
    and pool: "pool_contract mask_scale (rub_mask_pool self)"
    and cbn1: "cbn_built n_input ?cin (rub_cbn_1 self)"
    and conv1: "conv_same_contract ?cout (rub_conv_1 self)"
    and cbn2: "cbn_built n_input ?cout (rub_cbn_2 self)"
    and conv2: "conv_same_contract ?cout (rub_conv_2 self)"
    using built by (auto simp: ResidualUpsamplingBlock_built_def)
  have ident: "has_shape (identity_path self x training) B (2 * H) (2 * W) ?cout"
    unfolding identity_path_def
    by (rule conv_same_contractD [OF idc upsample_contractD [OF up x]])
  from ConditionalBatchNormalization_call_shape [OF cbn1 x z n] obtain a
    where a: "ConditionalBatchNormalization_call (rub_cbn_1 self) x z_k = Inr a"
      "has_shape a B H W ?cin"
    by blast
  have ra: "has_shape (ReLU a) B H W ?cin"
    using a(2) by (simp add: ReLU_def)
  have pm: "is_tensor (rub_mask_pool self masks)"
    using pool_contractD [OF pool has_shape_self [OF m]] by (simp add: has_shape_def)
  have rest: "\<exists>y. ResidualUpsamplingBlock_call self x z_k masks training = Inr y \<and>
                  has_shape y B (2 * H) (2 * W) ?cout"
    if b: "concat_axis3 (ReLU a) (rub_mask_pool self masks) = Inr b" for b
  proof -
    have "has_shape (rub_mask_pool self masks) B H W (dimC (rub_mask_pool self masks))"
      using concat_axis3_InrD [OF b] pm has_shapeD [OF ra] by (simp add: has_shape_def)
    from concat_axis3_shape [OF ra this] b
    have bs: "has_shape b B H W (?cin + dimC (rub_mask_pool self masks))"
      by simp
    have c1: "has_shape (rub_conv_1 self training (rub_upsample self b)) B (2 * H) (2 * W) ?cout"
      by (rule conv_same_contractD [OF conv1 upsample_contractD [OF up bs]])
    from ConditionalBatchNormalization_call_shape [OF cbn2 c1 z n] obtain c
      where c: "ConditionalBatchNormalization_call (rub_cbn_2 self)
                  (rub_conv_1 self training (rub_upsample self b)) z_k = Inr c"
        "has_shape c B (2 * H) (2 * W) ?cout"
      by blast
    have rc: "has_shape (ReLU c) B (2 * H) (2 * W) ?cout"
      using c(2) by (simp add: ReLU_def)
    have c2: "has_shape (rub_conv_2 self training (ReLU c)) B (2 * H) (2 * W) ?cout"
      by (rule conv_same_contractD [OF conv2 rc])
    from tensor_binop_same_shape [OF c2 ident, of "(+)"] obtain y
      where y: "tadd (rub_conv_2 self training (ReLU c)) (identity_path self x training) = Inr y"
        "has_shape y B (2 * H) (2 * W) ?cout"
      by (auto simp: tadd_def)
    have "ResidualUpsamplingBlock_call self x z_k masks training = Inr y"
      by (simp add: ResidualUpsamplingBlock_call_main_identity main_path_def a(1) b c(1) y(1))
    with y(2) show ?thesis
      by blast
  qed
  show "\<forall>y. ResidualUpsamplingBlock_call self x z_k masks training = Inr y \<longrightarrow>
          has_shape y B (2 * H) (2 * W) ?cout"
  proof (cases "concat_axis3 (ReLU a) (rub_mask_pool self masks)")
    case (Inl e)
    then show ?thesis
      by (simp add: ResidualUpsamplingBlock_call_main_identity main_path_def a(1))
  next
    case (Inr b)
    from rest [OF this] show ?thesis
      by auto
  qed
  show "\<exists>y. ResidualUpsamplingBlock_call self x z_k masks training = Inr y"
    if "has_shape masks B Hm Wm Cm" "(Hm + mask_scale - 1) div mask_scale = H"
      "(Wm + mask_scale - 1) div mask_scale = W"
  proof -
    have "has_shape (rub_mask_pool self masks) B H W Cm"
      using pool_contractD [OF pool that(1)] that(2,3) by simp
    from concat_axis3_shape [OF ra this] rest show ?thesis
      by blast
  qed
qed

lemma ResidualUpsamplingBlock_call_shape:
  assumes built: "ResidualUpsamplingBlock_built base_channels input_factor output_factor mask_scale n_input self"
    and x: "has_shape x B H W (base_channels * input_factor)"
    and z: "has_shape z_k B 1 1 n_input"
    and m: "is_tensor masks"
  shows "\<forall>y. ResidualUpsamplingBlock_call self x z_k masks training = Inr y \<longrightarrow>
            has_shape y B (2 * H) (2 * W) (base_channels * output_factor)"
proof (cases "0 < n_input")
  case True
  from ResidualUpsamplingBlock_call_shape_pos(1) [OF built x z m True] show ?thesis .
next
  case False
  then have "dimC z_k = 0"
    using has_shapeD [OF z] by simp
  then show ?thesis
    by (simp add: ResidualUpsamplingBlock_call_no_channel)
qed

lemma ResidualUpsamplingBlock_call_total:
  assumes "ResidualUpsamplingBlock_built base_channels input_factor output_factor mask_scale n_input self"
    and "has_shape x B H W (base_channels * input_factor)"
    and "has_shape z_k B 1 1 n_input"
    and "has_shape masks B Hm Wm Cm"
    and "(Hm + mask_scale - 1) div mask_scale = H" "(Wm + mask_scale - 1) div mask_scale = W"
    and "0 < n_input"
  shows "\<exists>y. ResidualUpsamplingBlock_call self x z_k masks training = Inr y \<and>
           has_shape y B (2 * H) (2 * W) (base_channels * output_factor)"
  using ResidualUpsamplingBlock_call_shape_pos [OF assms(1-3) has_shapeD(1) [OF assms(4)] assms(7)]
    assms(4-6)
  by blast

text \<open>
  Claim C5. On a feature map of shape \<open>[B, H, W, Cin]\<close>, the output of
  \<^verbatim>\<open>ResidualUpsamplingBlock.call\<close> is the sum of the main path (conditional batch norm on
  \<open>z\<close>, rectifier, concatenation of the pooled mask, up-sampling, convolution, second
  conditional batch norm, rectifier, second convolution) and the identity path
  (up-sampling, then the 1x1 convolution); whenever the call returns, the output has
  shape \<open>[B, 2 * H, 2 * W, Cout]\<close>; and it returns whenever the pooled mask has the
  spatial size of the feature map and \<open>z\<close> has at least one channel. On a \<open>z\<close> of no
  channel the call fails, in the 1x1 convolutions of the first conditional batch norm.
\<close>

theorem ResidualUpsamplingBlock_call_result:
  assumes built: "ResidualUpsamplingBlock_built base_channels input_factor output_factor mask_scale n_input self"
    and x: "has_shape x B H W (base_channels * input_factor)"
    and z: "has_shape z_k B 1 1 n_input"
    and m: "has_shape masks B Hm Wm 1"
  shows "ResidualUpsamplingBlock_call self x z_k masks training =
           bindE (main_path self x z_k masks training)
             (\<lambda>main. tadd main (identity_path self x training)) \<and>
         (\<forall>y. ResidualUpsamplingBlock_call self x z_k masks training = Inr y \<longrightarrow>
              has_shape y B (2 * H) (2 * W) (base_channels * output_factor)) \<and>
         (0 < n_input \<and>
          (Hm + mask_scale - 1) div mask_scale = H \<and> (Wm + mask_scale - 1) div mask_scale = W \<longrightarrow>
            (\<exists>y. ResidualUpsamplingBlock_call self x z_k masks training = Inr y)) \<and>
         (n_input = 0 \<longrightarrow>
            ResidualUpsamplingBlock_call self x z_k masks training = Inl ShapeError)"
proof (intro conjI impI)
  show "ResidualUpsamplingBlock_call self x z_k masks training =
          bindE (main_path self x z_k masks training)
            (\<lambda>main. tadd main (identity_path self x training))"
    by (rule ResidualUpsamplingBlock_call_main_identity)
  show "\<forall>y. ResidualUpsamplingBlock_call self x z_k masks training = Inr y \<longrightarrow>
          has_shape y B (2 * H) (2 * W) (base_channels * output_factor)"
    by (rule ResidualUpsamplingBlock_call_shape [OF built x z has_shapeD(1) [OF m]])
next
  assume "0 < n_input \<and>
    (Hm + mask_scale - 1) div mask_scale = H \<and> (Wm + mask_scale - 1) div mask_scale = W"
  then show "\<exists>y. ResidualUpsamplingBlock_call self x z_k masks training = Inr y"
    using ResidualUpsamplingBlock_call_total [OF built x z m, where training = training]
    by blast
next
  assume "n_input = 0"
  then have "dimC z_k = 0"
    using has_shapeD [OF z] by simp
  then show "ResidualUpsamplingBlock_call self x z_k masks training = Inl ShapeError"
    by (rule ResidualUpsamplingBlock_call_no_channel)
qed

theorem ResidualUpsamplingBlock_call_result_witness:
  "\<exists>y. ResidualUpsamplingBlock_call (rub_example 1 1 1 2 1) (const_tensor 1 1 1 1 0)
          (const_tensor 1 1 1 1 0) (const_tensor 1 2 2 1 (1 / 2)) False = Inr y \<and>
        has_shape y 1 2 2 1"
proof -
  have built: "ResidualUpsamplingBlock_built 1 1 1 2 1 (rub_example 1 1 1 2 1)"
    by (rule rub_example_built)
  have x: "has_shape (const_tensor 1 1 1 1 0) 1 1 1 (1 * 1)"
    using has_shape_const_tensor [of 1 1 1 1 0] by simp
  have z: "has_shape (const_tensor 1 1 1 1 0) 1 1 1 1"
    by (rule has_shape_const_tensor)
  have m: "has_shape (const_tensor 1 2 2 1 (1 / 2)) 1 2 2 1"
    by (rule has_shape_const_tensor)
  let ?call = "ResidualUpsamplingBlock_call (rub_example 1 1 1 2 1) (const_tensor 1 1 1 1 0)
     (const_tensor 1 1 1 1 0) (const_tensor 1 2 2 1 (1 / 2)) False"
  from ResidualUpsamplingBlock_call_result [OF built x z m, where training = False]
  have shape: "\<forall>y. ?call = Inr y \<longrightarrow> has_shape y 1 (2 * 1) (2 * 1) (1 * 1)"
    and returns: "0 < (1::nat) \<and> (2 + 2 - 1) div 2 = (1::nat) \<and> (2 + 2 - 1) div 2 = (1::nat) \<longrightarrow>
                    (\<exists>y. ?call = Inr y)"
    by blast+
  from returns obtain y where "?call = Inr y"
    by auto
  with shape show ?thesis
    by auto
qed

section \<open>The output block and the pipeline of the redrawn region\<close>

lemma OutputBlock_call_conv:
  assumes built: "OutputBlock_built base_channels output_factor n_input self"
    and x: "has_shape x B H W (base_channels * output_factor)"
    and z: "has_shape z_k B 1 1 n_input"
    and m: "has_shape masks B H W Cm"
    and n: "0 < n_input"
  shows "\<exists>c. has_shape c B H W (base_channels * output_factor + Cm) \<and>
           OutputBlock_call self x z_k masks training = Inr (tanh_activation (ob_conv self training c))"
proof -
  have cbn: "cbn_built n_input (base_channels * output_factor) (ob_cbn self)"
    using built by (auto simp: OutputBlock_built_def)
  from ConditionalBatchNormalization_call_shape [OF cbn x z n] obtain a
    where a: "ConditionalBatchNormalization_call (ob_cbn self) x z_k = Inr a"
      "has_shape a B H W (base_channels * output_factor)"
    by blast
  have ra: "has_shape (ReLU a) B H W (base_channels * output_factor)"
    using a(2) by (simp add: ReLU_def)
  from concat_axis3_shape [OF ra m] obtain c
    where c: "concat_axis3 (ReLU a) masks = Inr c"
      "has_shape c B H W (base_channels * output_factor + Cm)"
    by blast
  have "OutputBlock_call self x z_k masks training = Inr (tanh_activation (ob_conv self training c))"
    by (simp add: OutputBlock_call_def a(1) c(1))
  with c(2) show ?thesis
    by blast
qed

lemma OutputBlock_call_shape:
  assumes built: "OutputBlock_built base_channels output_factor n_input self"
    and x: "has_shape x B H W (base_channels * output_factor)"
    and z: "has_shape z_k B 1 1 n_input"
    and m: "has_shape masks B H W Cm"
    and n: "0 < n_input"
  shows "\<exists>y. OutputBlock_call self x z_k masks training = Inr y \<and> has_shape y B H W 3 \<and>
           (\<forall>b<B. \<forall>i<H. \<forall>j<W. \<forall>k<3. \<bar>tnth y b i j k\<bar> < 1)"
proof -
  have conv: "conv_same_contract 3 (ob_conv self)"
    using built by (auto simp: OutputBlock_built_def)
  from OutputBlock_call_conv [OF built x z m n, where training = training] obtain c
    where c: "has_shape c B H W (base_channels * output_factor + Cm)"
      and call: "OutputBlock_call self x z_k masks training
                   = Inr (tanh_activation (ob_conv self training c))"
    by blast
  have cv: "has_shape (ob_conv self training c) B H W 3"
    by (rule conv_same_contractD [OF conv c])
  note cd = has_shapeD [OF cv]
  have "has_shape (tanh_activation (ob_conv self training c)) B H W 3"
    using cv by (simp add: tanh_activation_def)
  moreover have "\<bar>tnth (tanh_activation (ob_conv self training c)) b i j k\<bar> < 1"
    if "b < B" "i < H" "j < W" "k < 3" for b i j k
    using tanh_activation_range [OF cd(1), of b i j k] that cd by simp
  ultimately show ?thesis
    using call by blast
qed


lemma redraw_region_before_output:
  assumes built: "ClassGenerator_built n_input self" and pos: "0 < cg_base_channels self"
    and z: "has_shape z_k B 1 1 n_input" and m: "has_shape masks B 128 128 1"
    and n: "0 < n_input"
  shows "\<exists>x. has_shape x B 128 128 (cg_base_channels self * 1) \<and>
           redraw_region self z_k masks training
             = OutputBlock_call (block_5 self) x z_k masks training"
proof -
  let ?bc = "cg_base_channels self"
  have b1: "InputBlock_built ?bc 16 n_input (block_1 self)"
    and u1: "ResidualUpsamplingBlock_built ?bc 16 16 32 n_input (up_res_block_1 self)"
    and u2: "ResidualUpsamplingBlock_built ?bc 16 8 16 n_input (up_res_block_2 self)"
    and u3: "ResidualUpsamplingBlock_built ?bc 8 4 8 n_input (up_res_block_3 self)"
    and u4: "ResidualUpsamplingBlock_built ?bc 4 2 4 n_input (up_res_block_4 self)"
    and b3: "attention_contract (block_3 self)"
    and b4: "ResidualUpsamplingBlock_built ?bc 2 1 2 n_input (block_4 self)"
    using built by (simp_all add: ClassGenerator_built_def)
  from InputBlock_call_shape [OF b1 z n] obtain x0
    where x0: "InputBlock_call (block_1 self) z_k = Inr x0" "has_shape x0 B 4 4 (?bc * 16)"
    by auto
  from ResidualUpsamplingBlock_call_total [OF u1 x0(2) z m _ _ n, where training = training] obtain x1
    where x1: "ResidualUpsamplingBlock_call (up_res_block_1 self) x0 z_k masks training = Inr x1"
      "has_shape x1 B 8 8 (?bc * 16)"
    by auto
  from ResidualUpsamplingBlock_call_total [OF u2 x1(2) z m _ _ n, where training = training] obtain x2
    where x2: "ResidualUpsamplingBlock_call (up_res_block_2 self) x1 z_k masks training = Inr x2"
      "has_shape x2 B 16 16 (?bc * 8)"
    by auto
  from ResidualUpsamplingBlock_call_total [OF u3 x2(2) z m _ _ n, where training = training] obtain x3
    where x3: "ResidualUpsamplingBlock_call (up_res_block_3 self) x2 z_k masks training = Inr x3"
      "has_shape x3 B 32 32 (?bc * 4)"
    by auto
  from ResidualUpsamplingBlock_call_total [OF u4 x3(2) z m _ _ n, where training = training] obtain x4
    where x4: "ResidualUpsamplingBlock_call (up_res_block_4 self) x3 z_k masks training = Inr x4"
      "has_shape x4 B 64 64 (?bc * 2)"
    by auto
  have att: "has_shape (block_3 self training x4) B 64 64 (?bc * 2)"
    by (rule attention_contractD [OF b3 x4(2)])
  from ResidualUpsamplingBlock_call_total [OF b4 att z m _ _ n, where training = training] obtain x5
    where x5: "ResidualUpsamplingBlock_call (block_4 self) (block_3 self training x4) z_k masks
                 training = Inr x5"
      "has_shape x5 B 128 128 (?bc * 1)"
    by auto
  have "redraw_region self z_k masks training = OutputBlock_call (block_5 self) x5 z_k masks training"
    by (simp add: redraw_region_def x0(1) x1(1) x2(1) x3(1) x4(1) x5(1))
  with x5(2) show ?thesis
    by blast
qed

lemma redraw_region_shape:
  assumes built: "ClassGenerator_built n_input self" and pos: "0 < cg_base_channels self"
    and z: "has_shape z_k B 1 1 n_input" and m: "has_shape masks B 128 128 1"
    and n: "0 < n_input"
  shows "\<exists>y. redraw_region self z_k masks training = Inr y \<and> has_shape y B 128 128 3 \<and>
           (\<forall>b<B. \<forall>i<128. \<forall>j<128. \<forall>k<3. \<bar>tnth y b i j k\<bar> < 1)"
proof -
  have b5: "OutputBlock_built (cg_base_channels self) 1 n_input (block_5 self)"
    using built by (simp add: ClassGenerator_built_def)
  from redraw_region_before_output [OF built pos z m n, where training = training] obtain x
    where x: "has_shape x B 128 128 (cg_base_channels self * 1)"
      and eq: "redraw_region self z_k masks training
                 = OutputBlock_call (block_5 self) x z_k masks training"
    by blast
  from OutputBlock_call_shape [OF b5 x z m n, where training = training] eq show ?thesis
    by simp
qed

lemma redraw_region_example:
  assumes pos: "0 < base_channels"
    and z: "has_shape z_k B 1 1 n_input" and m: "has_shape masks B 128 128 1"
    and n: "0 < n_input"
  shows "redraw_region (class_generator_example k base_channels n_input) z_k masks training
           = Inr (const_tensor B 128 128 3 (tanh 1))"
proof -
  let ?G = "class_generator_example k base_channels n_input"
  have bc: "cg_base_channels ?G = base_channels"
    and b5: "block_5 ?G = output_block_example base_channels 1 n_input"
    by (simp_all add: class_generator_example_def)
  from redraw_region_before_output
    [OF class_generator_example_built [OF pos] _ z m n, of k training] pos bc
  obtain x where x: "has_shape x B 128 128 (base_channels * 1)"
    and eq: "redraw_region ?G z_k masks training
               = OutputBlock_call (block_5 ?G) x z_k masks training"
    by auto
  from OutputBlock_call_conv [OF output_block_example_built x z m n, where training = training]
  obtain c where c: "has_shape c B 128 128 (base_channels * 1 + 1)"
    and call: "OutputBlock_call (output_block_example base_channels 1 n_input) x z_k masks training
                 = Inr (tanh_activation (conv_const 3 1 training c))"
    by (auto simp: output_block_example_def)
  have "conv_const 3 1 training c = const_tensor B 128 128 3 1"
    using has_shapeD [OF c] by (simp add: conv_const_def)
  with eq call b5 show ?thesis
    by (simp add: tanh_activation_def tmap_const_tensor)
qed

section \<open>The loop of the class generator\<close>

lemma for_loop_append:
  "for_loop body (xs @ ys) s = bindE (for_loop body xs s) (for_loop body ys)"
proof (induction xs arbitrary: s)
  case Nil
  show ?case by simp
next
  case (Cons k xs)
  show ?case
    by (cases "body s k") (simp_all add: Cons.IH)
qed

lemma for_loop_upt_Suc:
  "for_loop body [0..<Suc n] s = bindE (for_loop body [0..<n] s) (\<lambda>s'. body s' n)"
proof -
  have "for_loop body [n] = (\<lambda>s'. body s' n)"
  proof
    fix s' show "for_loop body [n] s' = body s' n"
      by (cases "body s' n") simp_all
  qed
  then show ?thesis
    by (simp add: for_loop_append)
qed

lemma ClassGenerator_body_region:
  assumes "ClassGenerator_body redraw self_k images logits z_k training (fake, region) k = Inr (fake', region')"
  shows "if int k = self_k
         then \<exists>mask raw r. select_channel (Softmax_axis3 logits) k = Inr mask \<and>
                redraw z_k mask training = Inr raw \<and> tmul raw mask = Inr r \<and> region' = Some r
         else region' = region"
  using assms by (auto simp: ClassGenerator_body_def bindE_eq_Inr split: if_splits)

lemma ClassGenerator_loop_region:
  assumes "for_loop (ClassGenerator_body redraw self_k images logits z_k training) [0..<n] (fake0, None)
             = Inr (fake, region)"
  shows "if 0 \<le> self_k \<and> self_k < int n
         then \<exists>mask raw r. select_channel (Softmax_axis3 logits) (nat self_k) = Inr mask \<and>
                redraw z_k mask training = Inr raw \<and> tmul raw mask = Inr r \<and> region = Some r
         else region = None"
  using assms
proof (induction n arbitrary: fake region)
  case 0
  then show ?case by simp
next
  case (Suc n)
  from Suc.prems obtain fake1 region1
    where loop: "for_loop (ClassGenerator_body redraw self_k images logits z_k training) [0..<n]
                   (fake0, None) = Inr (fake1, region1)"
      and body: "ClassGenerator_body redraw self_k images logits z_k training (fake1, region1) n
                   = Inr (fake, region)"
    unfolding for_loop_upt_Suc bindE_eq_Inr by auto
  note step = ClassGenerator_body_region [OF body]
  show ?case
  proof (cases "int n = self_k")
    case True
    then have "nat self_k = n"
      by auto
    with True step show ?thesis
      by auto
  next
    case False
    with step have "region = region1"
      by simp
    moreover have "(0 \<le> self_k \<and> self_k < int (Suc n)) = (0 \<le> self_k \<and> self_k < int n)"
      using False by auto
    ultimately show ?thesis
      using Suc.IH [OF loop] by (auto split: if_splits)
  qed
qed

lemma ClassGenerator_loop_values:
  assumes images: "has_shape images B H W C" and logits: "has_shape logits B H W n_regions"
    and raw: "\<And>mask. 0 \<le> self_k \<Longrightarrow> self_k < int n_regions \<Longrightarrow>
                select_channel (Softmax_axis3 logits) (nat self_k) = Inr mask \<Longrightarrow>
                redraw z_k mask training = Inr raw"
    and rawshape: "has_shape raw B H W C"
    and n: "n \<le> n_regions"
  shows "\<exists>fake region.
           for_loop (ClassGenerator_body redraw self_k images logits z_k training) [0..<n]
             (zeros B H W C, None) = Inr (fake, region) \<and>
           has_shape fake B H W C \<and>
           (\<forall>b<B. \<forall>i<H. \<forall>j<W. \<forall>c<C.
              tnth fake b i j c =
                (\<Sum>k<n. (if int k = self_k then tnth raw b i j c else tnth images b i j c) *
                          tnth (Softmax_axis3 logits) b i j k))"
  using n
proof (induction n)
  case 0
  show ?case
    by (simp add: tnth_zeros)
next
  case (Suc n)
  let ?body = "ClassGenerator_body redraw self_k images logits z_k training"
  let ?sm = "Softmax_axis3 logits"
  let ?w = "\<lambda>k b i j c. (if int k = self_k then tnth raw b i j c else tnth images b i j c)"
  from Suc obtain fake region
    where loop: "for_loop ?body [0..<n] (zeros B H W C, None) = Inr (fake, region)"
      and fs: "has_shape fake B H W C"
      and fv: "\<And>b i j c. b < B \<Longrightarrow> i < H \<Longrightarrow> j < W \<Longrightarrow> c < C \<Longrightarrow>
                 tnth fake b i j c = (\<Sum>k<n. ?w k b i j c * tnth ?sm b i j k)"
    by auto
  have sm: "has_shape ?sm B H W n_regions"
    using logits by simp
  from select_channel_shape [OF sm, of n] Suc.prems obtain mask
    where mask: "select_channel ?sm n = Inr mask" "has_shape mask B H W 1"
      "\<And>b i j. b < B \<Longrightarrow> i < H \<Longrightarrow> j < W \<Longrightarrow> tnth mask b i j 0 = tnth ?sm b i j n"
    by auto
  define src where "src = (if int n = self_k then raw else images)"
  have src: "has_shape src B H W C"
    using images rawshape by (simp add: src_def)
  from tensor_binop_mask [OF src mask(2), where f = "(*)"] obtain part
    where part: "tmul src mask = Inr part" "has_shape part B H W C"
      "\<And>b i j c. b < B \<Longrightarrow> i < H \<Longrightarrow> j < W \<Longrightarrow> c < C \<Longrightarrow>
         tnth part b i j c = tnth src b i j c * tnth mask b i j 0"
    by (auto simp: tmul_def)
  from tensor_binop_same_shape [OF fs part(2), where f = "(+)"] obtain fake'
    where fake': "tadd fake part = Inr fake'" "has_shape fake' B H W C"
      "\<And>b i j c. b < B \<Longrightarrow> i < H \<Longrightarrow> j < W \<Longrightarrow> c < C \<Longrightarrow>
         tnth fake' b i j c = tnth fake b i j c + tnth part b i j c"
    by (auto simp: tadd_def)
  have "\<exists>region'. ?body (fake, region) n = Inr (fake', region')"
  proof (cases "int n = self_k")
    case True
    then have "nat self_k = n" "0 \<le> self_k" "self_k < int n_regions"
      using Suc.prems by auto
    with raw [of mask] mask(1) have "redraw z_k mask training = Inr raw"
      by simp
    with True part(1) fake'(1) mask(1) show ?thesis
      by (simp add: ClassGenerator_body_def src_def)
  next
    case False
    with part(1) fake'(1) mask(1) show ?thesis
      by (simp add: ClassGenerator_body_def src_def)
  qed
  then obtain region' where "?body (fake, region) n = Inr (fake', region')"
    by blast
  then have "for_loop ?body [0..<Suc n] (zeros B H W C, None) = Inr (fake', region')"
    by (simp add: for_loop_upt_Suc loop del: upt_Suc)
  moreover have "tnth fake' b i j c = (\<Sum>k<Suc n. ?w k b i j c * tnth ?sm b i j k)"
    if "b < B" "i < H" "j < W" "c < C" for b i j c
    using fake'(3) [OF that] fv [OF that] part(3) [OF that] mask(3) [OF that(1-3)]
    by (simp add: src_def)
  ultimately show ?case
    using fake'(2) by blast
qed

lemma ClassGenerator_call_with_loop:
  assumes "ClassGenerator_call_with redraw self_k random_normal images logits n_input training
             = Inr (fake, region, z)"
  shows "for_loop (ClassGenerator_body redraw self_k images logits
                     (random_normal (dimN logits) 1 1 n_input) training)
           [0..<dimC logits] (zeros (dimN images) (dimH images) (dimW images) (dimC images), None)
           = Inr (fake, Some region)"
    and "squeeze_spatial (random_normal (dimN logits) 1 1 n_input) = Inr z"
  using assms
  by (auto simp: ClassGenerator_call_with_def Let_def bindE_eq_Inr split: option.splits)

lemma ClassGenerator_call_with_total:
  assumes images: "has_shape images B H W C" and logits: "has_shape logits B H W n_regions"
    and k: "0 \<le> self_k" "self_k < int n_regions"
    and raw: "\<And>mask. select_channel (Softmax_axis3 logits) (nat self_k) = Inr mask \<Longrightarrow>
                redraw (random_normal B 1 1 n_input) mask training = Inr raw"
    and rawshape: "has_shape raw B H W C"
    and normal: "normal_contract random_normal"
  shows "\<exists>fake region z.
           ClassGenerator_call_with redraw self_k random_normal images logits n_input training
             = Inr (fake, region, z)"
proof -
  note id = has_shapeD [OF images] and ld = has_shapeD [OF logits]
  let ?z = "random_normal B 1 1 n_input"
  from ClassGenerator_loop_values
    [where redraw = redraw and z_k = ?z and training = training and raw = raw and self_k = self_k,
      OF images logits raw rawshape order_refl]
  obtain fake region
    where loop: "for_loop (ClassGenerator_body redraw self_k images logits ?z training)
                   [0..<n_regions] (zeros B H W C, None) = Inr (fake, region)"
    by blast
  from ClassGenerator_loop_region [OF loop] k obtain r where r: "region = Some r"
    by auto
  have "has_shape ?z B 1 1 n_input"
    using normal by (simp add: normal_contract_def)
  then obtain z where z: "squeeze_spatial ?z = Inr z"
    by (auto simp: squeeze_spatial_def has_shape_def)
  have "ClassGenerator_call_with redraw self_k random_normal images logits n_input training
          = Inr (fake, r, z)"
    using loop r z id ld by (simp add: ClassGenerator_call_with_def)
  then show ?thesis
    by blast
qed

lemma class_generator_example_call:
  "ClassGenerator_call (class_generator_example 0 1 1) zeros
     (const_tensor 1 128 128 3 10) (const_tensor 1 128 128 2 0) 1 False
   = Inr (const_tensor 1 128 128 3 (tanh 1 / 2 + 5), const_tensor 1 128 128 3 (tanh 1 / 2),
          Matrix 1 1 [[0]])"
proof -
  let ?G = "class_generator_example 0 1 1"
  have k: "cg_k ?G = 0"
    by (simp add: class_generator_example_def)
  have range: "[0..<2] = [0, Suc 0]"
    by (simp add: upt_rec)
  have redraw: "redraw_region ?G (zeros 1 1 1 1) (const_tensor 1 128 128 1 (1 / 2)) False
                  = Inr (const_tensor 1 128 128 3 (tanh 1))"
    by (rule redraw_region_example) simp_all
  have sq: "squeeze_spatial (zeros 1 1 1 1) = Inr (Matrix 1 1 [[0]])"
    using squeeze_spatial_zeros [of 1 1] by simp
  show ?thesis
    by (simp add: ClassGenerator_call_def ClassGenerator_call_with_def k range
        ClassGenerator_body_def Softmax_axis3_const_tensor select_channel_const_tensor redraw
        tmul_def tadd_def tensor_binop_const_tensor_mask zeros_def [of 1 128 128 3]
        tensor_binop_const_tensor sq del: One_nat_def)
qed

lemma convex_combination_bound:
  fixes w p :: "nat \<Rightarrow> real"
  assumes w: "\<And>k. k < n \<Longrightarrow> \<bar>w k\<bar> \<le> 1" and p: "\<And>k. k < n \<Longrightarrow> 0 \<le> p k"
    and total: "(\<Sum>k<n. p k) \<le> 1"
  shows "\<bar>\<Sum>k<n. w k * p k\<bar> \<le> 1"
proof -
  have "\<bar>\<Sum>k<n. w k * p k\<bar> \<le> (\<Sum>k<n. \<bar>w k * p k\<bar>)"
    by (rule sum_abs)
  also have "\<dots> \<le> (\<Sum>k<n. p k)"
  proof (rule sum_mono)
    fix k assume "k \<in> {..<n}"
    then have k: "k < n"
      by simp
    have "\<bar>w k * p k\<bar> = \<bar>w k\<bar> * p k"
      using p [OF k] by (simp add: abs_mult)
    also have "\<dots> \<le> 1 * p k"
      using w [OF k] p [OF k] by (intro mult_right_mono)
    finally show "\<bar>w k * p k\<bar> \<le> p k"
      by simp
  qed
  also note total
  finally show ?thesis .
qed



lemma ClassGenerator_call_image:
  assumes built: "ClassGenerator_built n_input self" and pos: "0 < cg_base_channels self"
    and k: "0 \<le> cg_k self" "cg_k self < int n_regions"
    and normal: "normal_contract random_normal"
    and images: "has_shape images B 128 128 3" and logits: "has_shape logits B 128 128 n_regions"
    and n: "0 < n_input"
  shows "\<exists>fake region z.
           ClassGenerator_call self random_normal images logits n_input training
             = Inr (fake, region, z) \<and>
           has_shape fake B 128 128 3 \<and> (in_unit_range images \<longrightarrow> in_unit_range fake)"
proof -
  let ?z = "random_normal B 1 1 n_input"
  let ?sm = "Softmax_axis3 logits"
  note id = has_shapeD [OF images] and ld = has_shapeD [OF logits]
  have z: "has_shape ?z B 1 1 n_input"
    using normal by (simp add: normal_contract_def)
  have sm: "has_shape ?sm B 128 128 n_regions"
    using logits by simp
  have kn: "nat (cg_k self) < n_regions"
    using k by linarith
  from select_channel_shape [OF sm kn] obtain mask
    where mask: "select_channel ?sm (nat (cg_k self)) = Inr mask" "has_shape mask B 128 128 1"
    by auto
  from redraw_region_shape [OF built pos z mask(2) n, where training = training] obtain raw
    where raw: "redraw_region self ?z mask training = Inr raw" "has_shape raw B 128 128 3"
      "\<And>b i j c. b < B \<Longrightarrow> i < 128 \<Longrightarrow> j < 128 \<Longrightarrow> c < 3 \<Longrightarrow> \<bar>tnth raw b i j c\<bar> < 1"
    by blast
  have raw': "redraw_region self ?z mask' training = Inr raw"
    if "select_channel ?sm (nat (cg_k self)) = Inr mask'" for mask'
    using that mask(1) raw(1) by simp
  from ClassGenerator_call_with_total
    [where redraw = "redraw_region self" and random_normal = random_normal and n_input = n_input
      and training = training and self_k = "cg_k self" and raw = raw,
      OF images logits k raw' raw(2) normal]
  obtain fake region zz
    where call: "ClassGenerator_call_with (redraw_region self) (cg_k self) random_normal images
                   logits n_input training = Inr (fake, region, zz)"
    by blast
  have loop: "for_loop (ClassGenerator_body (redraw_region self) (cg_k self) images logits ?z
                training) [0..<n_regions] (zeros B 128 128 3, None) = Inr (fake, Some region)"
    using ClassGenerator_call_with_loop(1) [OF call] id ld by simp
  from ClassGenerator_loop_values
    [where redraw = "redraw_region self" and z_k = ?z and training = training and raw = raw
      and self_k = "cg_k self", OF images logits raw' raw(2) order_refl] loop
  have fs: "has_shape fake B 128 128 3"
    and fv: "\<And>b i j c. b < B \<Longrightarrow> i < 128 \<Longrightarrow> j < 128 \<Longrightarrow> c < 3 \<Longrightarrow>
               tnth fake b i j c =
                 (\<Sum>k<n_regions. (if int k = cg_k self then tnth raw b i j c else tnth images b i j c) *
                                   tnth ?sm b i j k)"
    by auto
  note fd = has_shapeD [OF fs]
  have "in_unit_range fake" if bounded: "in_unit_range images"
    unfolding in_unit_range_def
  proof (intro allI impI)
    fix b i j c
    assume "b < dimN fake" "i < dimH fake" "j < dimW fake" "c < dimC fake"
    then have idx: "b < B" "i < 128" "j < 128" "c < 3"
      using fd by simp_all
    have im: "\<bar>tnth images b i j c\<bar> \<le> 1"
      using bounded idx id by (auto simp: in_unit_range_def abs_le_iff)
    have "\<bar>\<Sum>k<n_regions. (if int k = cg_k self then tnth raw b i j c else tnth images b i j c) *
                             tnth ?sm b i j k\<bar> \<le> 1"
    proof (rule convex_combination_bound)
      fix k assume "k < n_regions"
      show "\<bar>if int k = cg_k self then tnth raw b i j c else tnth images b i j c\<bar> \<le> 1"
        using im raw(3) [OF idx] by simp
      show "0 \<le> tnth ?sm b i j k"
        using tnth_Softmax_axis3(2) [OF logits idx(1-3) \<open>k < n_regions\<close>] .
    next
      show "(\<Sum>k<n_regions. tnth ?sm b i j k) \<le> 1"
        using tnth_Softmax_axis3(1) [OF logits idx(1-3)] by simp
    qed
    then show "- 1 \<le> tnth fake b i j c \<and> tnth fake b i j c \<le> 1"
      using fv [OF idx] by (simp add: abs_le_iff)
  qed
  with call fs show ?thesis
    by (auto simp: ClassGenerator_call_def)
qed

section \<open>What the class generator returns\<close>

subsection \<open>Rounding to single precision\<close>



lemma fl32_0 [simp]: "fl32 0 = 0"
  by (simp add: fl32_def)












subsection \<open>The composite image\<close>




text \<open>
  Claim C9. When the class index \<^verbatim>\<open>self.k\<close> of the generator is not in
  \<^verbatim>\<open>range(n_regions)\<close>, no branch of the loop assigns \<^verbatim>\<open>batch_region_k_fake\<close>:
  \<^verbatim>\<open>ClassGenerator.call\<close> returns no result, and on an image batch and mask logits of one
  batch and spatial size, where the loop itself runs through, it fails at its return
  statement, reading the unassigned variable.
\<close>

theorem ClassGenerator_call_unassigned_region:
  assumes k: "\<not> (0 \<le> cg_k self \<and> cg_k self < int (dimC logits))"
  shows "(\<forall>r. ClassGenerator_call self random_normal images logits n_input training \<noteq> Inr r) \<and>
         (has_shape images B H W C \<and> has_shape logits B H W (dimC logits) \<longrightarrow>
            ClassGenerator_call self random_normal images logits n_input training
              = Inl UnboundLocalError)"
proof (intro conjI allI impI)
  fix r
  show "ClassGenerator_call self random_normal images logits n_input training \<noteq> Inr r"
  proof
    assume "ClassGenerator_call self random_normal images logits n_input training = Inr r"
    then obtain fake region z
      where "ClassGenerator_call_with (redraw_region self) (cg_k self) random_normal images logits
               n_input training = Inr (fake, region, z)"
      by (cases r) (auto simp: ClassGenerator_call_def)
    from ClassGenerator_loop_region [OF ClassGenerator_call_with_loop(1) [OF this]] k
    show False
      by simp
  qed
next
  assume shapes: "has_shape images B H W C \<and> has_shape logits B H W (dimC logits)"
  then have images: "has_shape images B H W C" and logits: "has_shape logits B H W (dimC logits)"
    by simp_all
  note id = has_shapeD [OF images] and ld = has_shapeD [OF logits]
  let ?z = "random_normal B 1 1 n_input"
  have raw: "redraw_region self ?z mask training = Inr images"
    if "0 \<le> cg_k self" "cg_k self < int (dimC logits)" for mask
    using that k by simp
  from ClassGenerator_loop_values
    [where redraw = "redraw_region self" and z_k = ?z and training = training and raw = images
      and self_k = "cg_k self", OF images logits raw images order_refl]
  obtain fake region
    where loop: "for_loop (ClassGenerator_body (redraw_region self) (cg_k self) images logits ?z
                   training) [0..<dimC logits] (zeros B H W C, None) = Inr (fake, region)"
    by blast
  from ClassGenerator_loop_region [OF loop] k have "region = None"
    by simp
  with loop id ld show "ClassGenerator_call self random_normal images logits n_input training
      = Inl UnboundLocalError"
    by (simp add: ClassGenerator_call_def ClassGenerator_call_with_def)
qed

theorem ClassGenerator_call_unassigned_region_witness:
  "ClassGenerator_call (class_generator_example 5 1 1) zeros (const_tensor 1 128 128 3 10)
     (const_tensor 1 128 128 2 0) 1 False = Inl UnboundLocalError"
proof -
  have k: "\<not> (0 \<le> cg_k (class_generator_example 5 1 1) \<and>
               cg_k (class_generator_example 5 1 1) < int (dimC (const_tensor 1 128 128 2 0)))"
    by (simp add: class_generator_example_def)
  have "has_shape (const_tensor 1 128 128 3 10) 1 128 128 3 \<and>
        has_shape (const_tensor 1 128 128 2 0) 1 128 128 (dimC (const_tensor 1 128 128 2 0))"
    by simp
  with ClassGenerator_call_unassigned_region [OF k, of zeros "const_tensor 1 128 128 3 10" 1 False
      1 128 128 3]
  show ?thesis
    by blast
qed

text \<open>
  Claim C2, as the code has it. When \<^verbatim>\<open>ClassGenerator.call\<close> returns, the class index of
  the generator is in the class range of the mask, and the triple holds the composite
  image that the loop accumulated, the redrawn region after its multiplication by the
  class mask (the raw output of \<^verbatim>\<open>block_5\<close> is not returned), and the sampled noise with
  its two spatial dimensions dropped, of shape \<open>[B, n_input]\<close>.
\<close>

theorem ClassGenerator_call_returns:
  assumes call: "ClassGenerator_call self random_normal images logits n_input training
                   = Inr (fake, region, z)"
    and normal: "normal_contract random_normal"
  defines "z_k \<equiv> random_normal (dimN logits) 1 1 n_input"
  shows "0 \<le> cg_k self \<and> cg_k self < int (dimC logits) \<and>
         for_loop (ClassGenerator_body (redraw_region self) (cg_k self) images logits z_k training)
           [0..<dimC logits] (zeros (dimN images) (dimH images) (dimW images) (dimC images), None)
           = Inr (fake, Some region) \<and>
         (\<exists>mask raw.
            select_channel (Softmax_axis3 logits) (nat (cg_k self)) = Inr mask \<and>
            redraw_region self z_k mask training = Inr raw \<and>
            tmul raw mask = Inr region) \<and>
         mrows z = dimN logits \<and> mcols z = n_input \<and>
         mentries z = map (\<lambda>img. img ! 0 ! 0) (elems z_k) \<and>
         length (mentries z) = dimN logits \<and>
         (\<forall>row \<in> set (mentries z). length row = n_input)"
proof -
  from call have with_call: "ClassGenerator_call_with (redraw_region self) (cg_k self)
      random_normal images logits n_input training = Inr (fake, region, z)"
    by (simp add: ClassGenerator_call_def)
  note loop = ClassGenerator_call_with_loop(1) [OF with_call, folded z_k_def]
  note sq = ClassGenerator_call_with_loop(2) [OF with_call, folded z_k_def]
  from ClassGenerator_loop_region [OF loop]
  have k: "0 \<le> cg_k self \<and> cg_k self < int (dimC logits)"
    and parts: "\<exists>mask raw. select_channel (Softmax_axis3 logits) (nat (cg_k self)) = Inr mask \<and>
                  redraw_region self z_k mask training = Inr raw \<and> tmul raw mask = Inr region"
    by (auto split: if_splits)
  have zs: "has_shape z_k (dimN logits) 1 1 n_input"
    using normal by (simp add: normal_contract_def z_k_def)
  note zd = has_shapeD [OF zs]
  from sq zd have z: "z = Matrix (dimN logits) n_input (map (\<lambda>img. img ! 0 ! 0) (elems z_k))"
    by (auto simp: squeeze_spatial_def)
  have len: "length (elems z_k) = dimN logits"
    using is_tensor_len0 [OF zd(1)] zd by simp
  have "length row = n_input" if "row \<in> set (mentries z)" for row
  proof -
    from that obtain b where b: "b < dimN logits" and row: "row = pixel z_k b 0 0"
      unfolding z using len by (auto simp: in_set_conv_nth pixel_def)
    show ?thesis
      using is_tensor_len3 [OF zd(1), of b 0 0] b zd by (simp add: row)
  qed
  with k loop parts z len show ?thesis
    by simp
qed

theorem ClassGenerator_call_returns_witness:
  "\<exists>mask raw.
     select_channel (Softmax_axis3 (const_tensor 1 128 128 2 0))
       (nat (cg_k (class_generator_example 0 1 1))) = Inr mask \<and>
     redraw_region (class_generator_example 0 1 1) (zeros 1 1 1 1) mask False = Inr raw \<and>
     tmul raw mask = Inr (const_tensor 1 128 128 3 (tanh 1 / 2))"
proof -
  have "normal_contract zeros"
    by (simp add: normal_contract_def)
  from ClassGenerator_call_returns [OF class_generator_example_call this] show ?thesis
    by simp
qed

theorem ClassGenerator_call_raw_region_counterexample:
  "ClassGenerator_call (class_generator_example 0 1 1) zeros
     (const_tensor 1 128 128 3 10) (const_tensor 1 128 128 2 0) 1 False
   = Inr (const_tensor 1 128 128 3 (tanh 1 / 2 + 5), const_tensor 1 128 128 3 (tanh 1 / 2),
          Matrix 1 1 [[0]]) \<and>
   select_channel (Softmax_axis3 (const_tensor 1 128 128 2 0)) 0
   = Inr (const_tensor 1 128 128 1 (1 / 2)) \<and>
   redraw_region (class_generator_example 0 1 1) (zeros 1 1 1 1)
     (const_tensor 1 128 128 1 (1 / 2)) False
   = Inr (const_tensor 1 128 128 3 (tanh 1)) \<and>
   const_tensor 1 128 128 3 (tanh 1 / 2) \<noteq> const_tensor 1 128 128 3 (tanh 1)"
proof -
  have "select_channel (Softmax_axis3 (const_tensor 1 128 128 2 0)) 0
          = Inr (const_tensor 1 128 128 1 (1 / 2))"
    by (simp add: Softmax_axis3_const_tensor select_channel_const_tensor)
  moreover have "redraw_region (class_generator_example 0 1 1) (zeros 1 1 1 1)
      (const_tensor 1 128 128 1 (1 / 2)) False = Inr (const_tensor 1 128 128 3 (tanh 1))"
    by (rule redraw_region_example) simp_all
  moreover have "const_tensor 1 128 128 3 (tanh 1 / 2) \<noteq> const_tensor 1 128 128 3 (tanh 1)"
  proof
    assume "const_tensor 1 128 128 3 (tanh 1 / 2) = const_tensor 1 128 128 3 (tanh 1)"
    then have "tnth (const_tensor 1 128 128 3 (tanh 1 / 2)) 0 0 0 0
                 = tnth (const_tensor 1 128 128 3 (tanh 1)) 0 0 0 0"
      by simp
    then have "tanh 1 / 2 = (tanh 1 :: real)"
      by (simp add: tnth_const_tensor)
    then show False
      by simp
  qed
  ultimately show ?thesis
    using class_generator_example_call by simp
qed

section \<open>What the generator returns\<close>

lemma Generator_call_unfold:
  "Generator_call self random_normal images logits k update_generator training calls =
     (case bindE (py_index (class_generators self) k) (\<lambda>cg.
             ClassGenerator_call cg random_normal images logits (gen_n_input self) training) of
        Inl e \<Rightarrow> (Inl e, calls)
      | Inr (fake, region, z) \<Rightarrow>
          if update_generator
          then (case information_network self region k training of
                  Inl e \<Rightarrow> Inl e
                | Inr z_hat \<Rightarrow> Inr (FakeNoiseEstimate fake z z_hat),
                calls @ [(region, k, training)])
          else (Inr (FakeOnly fake), calls))"
  by (auto simp: Generator_call_def split: sum.splits prod.splits)

lemma py_index_InrD:
  assumes "py_index xs k = Inr x"
  shows "\<exists>j<length xs. x = xs ! j \<and> (k = int j \<or> k = int j - int (length xs))"
proof -
  let ?j = "nat (if k < 0 then int (length xs) + k else k)"
  from assms have "?j < length xs" "x = xs ! ?j" "k = int ?j \<or> k = int ?j - int (length xs)"
    by (auto simp: py_index_def Let_def split: if_splits)
  then show ?thesis
    by blast
qed

lemma py_index_in_range:
  assumes "- int (length xs) \<le> k" "k < int (length xs)"
  shows "\<exists>x. py_index xs k = Inr x"
  using assms by (auto simp: py_index_def Let_def)


text \<open>
  Claim C1. What \<^verbatim>\<open>Generator.call\<close> returns and what it does to the
  information-conservation network follow from the result of the class generator that
  the index selects. When the index or the class generator fails, the call fails with the
  same error and the network is not invoked. When the class generator returns the fake
  image batch, the region and the noise vector: with \<^verbatim>\<open>update_generator\<close> false the call
  returns the fake image batch alone and the network is not invoked; with
  \<^verbatim>\<open>update_generator\<close> true the network is invoked exactly once, on the region that the
  class generator returned, and the call returns the fake image batch, the noise vector
  and the network's estimate, or fails as the network does. The class generator returns
  for a generator as the constructor builds it, on real images of shape
  \<open>[B, 128, 128, 3]\<close>, mask logits of shape \<open>[B, 128, 128, n_classes]\<close>, a noise vector of
  at least one channel and an index that selects a class generator.
\<close>

theorem Generator_call_result:
  fixes self random_normal images logits k update_generator training calls base_channels B
  defines "out \<equiv> Generator_call self random_normal images logits k update_generator training calls"
    and "inner \<equiv> bindE (py_index (class_generators self) k) (\<lambda>cg.
           ClassGenerator_call cg random_normal images logits (gen_n_input self) training)"
  shows "(\<forall>e. inner = Inl e \<longrightarrow> out = (Inl e, calls)) \<and>
         (\<forall>fake region z. inner = Inr (fake, region, z) \<longrightarrow>
            (\<not> update_generator \<longrightarrow> out = (Inr (FakeOnly fake), calls)) \<and>
            (update_generator \<longrightarrow>
               snd out = calls @ [(region, k, training)] \<and>
               (\<forall>z_hat. information_network self region k training = Inr z_hat \<longrightarrow>
                  fst out = Inr (FakeNoiseEstimate fake z z_hat)) \<and>
               (\<forall>e. information_network self region k training = Inl e \<longrightarrow> fst out = Inl e))) \<and>
         (Generator_built base_channels self \<and> 0 < base_channels \<and> 0 < gen_n_input self \<and>
          normal_contract random_normal \<and> has_shape images B 128 128 3 \<and>
          has_shape logits B 128 128 (gen_n_classes self) \<and>
          - int (gen_n_classes self) \<le> k \<and> k < int (gen_n_classes self) \<longrightarrow>
            (\<exists>fake region z. inner = Inr (fake, region, z))) \<and>
         (\<not> update_generator \<longrightarrow>
            snd out = calls \<and>
            (\<forall>r. fst out = Inr r \<longrightarrow>
               (\<exists>fake region z. inner = Inr (fake, region, z) \<and> r = FakeOnly fake))) \<and>
         (update_generator \<longrightarrow>
            (\<forall>r. fst out = Inr r \<longrightarrow>
               (\<exists>fake region z z_hat.
                  inner = Inr (fake, region, z) \<and>
                  information_network self region k training = Inr z_hat \<and>
                  r = FakeNoiseEstimate fake z z_hat \<and>
                  snd out = calls @ [(region, k, training)]))) \<and>
         (snd out = calls \<or> (\<exists>region. snd out = calls @ [(region, k, training)]))"
proof -
  have total: "\<exists>fake region z. inner = Inr (fake, region, z)"
    if built: "Generator_built base_channels self" and pos: "0 < base_channels"
      and n: "0 < gen_n_input self" and normal: "normal_contract random_normal"
      and images: "has_shape images B 128 128 3"
      and logits: "has_shape logits B 128 128 (gen_n_classes self)"
      and k: "- int (gen_n_classes self) \<le> k" "k < int (gen_n_classes self)"
  proof -
    have len: "length (class_generators self) = gen_n_classes self"
      using built by (simp add: Generator_built_def)
    from py_index_in_range [of "class_generators self" k] k len
    obtain cg where cg: "py_index (class_generators self) k = Inr cg"
      by auto
    from py_index_InrD [OF cg] len obtain j
      where j: "j < gen_n_classes self" "cg = class_generators self ! j"
      by auto
    with built have "cg_k cg = int j" "cg_base_channels cg = base_channels"
      "ClassGenerator_built (gen_n_input self) cg"
      by (simp_all add: Generator_built_def)
    with ClassGenerator_call_image
      [of "gen_n_input self" cg "gen_n_classes self" random_normal images B logits training]
      j(1) pos normal images logits n
    show ?thesis
      by (auto simp: inner_def cg)
  qed
  have failed: "out = (Inl e, calls)" if "inner = Inl e" for e
    using that unfolding out_def inner_def Generator_call_unfold by simp
  have plain: "out = (Inr (FakeOnly fake), calls)"
    if "inner = Inr (fake, region, z)" "\<not> update_generator" for fake region z
    using that unfolding out_def inner_def Generator_call_unfold by simp
  have update: "out =
          (case information_network self region k training of
             Inl e \<Rightarrow> Inl e
           | Inr z_hat \<Rightarrow> Inr (FakeNoiseEstimate fake z z_hat),
           calls @ [(region, k, training)])"
    if "inner = Inr (fake, region, z)" update_generator for fake region z
    using that unfolding out_def inner_def Generator_call_unfold by simp
  have c1: "\<forall>e. inner = Inl e \<longrightarrow> out = (Inl e, calls)"
    using failed by blast
  have c2: "\<forall>fake region z. inner = Inr (fake, region, z) \<longrightarrow>
            (\<not> update_generator \<longrightarrow> out = (Inr (FakeOnly fake), calls)) \<and>
            (update_generator \<longrightarrow>
               snd out = calls @ [(region, k, training)] \<and>
               (\<forall>z_hat. information_network self region k training = Inr z_hat \<longrightarrow>
                  fst out = Inr (FakeNoiseEstimate fake z z_hat)) \<and>
               (\<forall>e. information_network self region k training = Inl e \<longrightarrow> fst out = Inl e))"
  proof (intro allI impI conjI)
    fix fake region z assume i: "inner = Inr (fake, region, z)"
    { assume "\<not> update_generator"
      from plain [OF i this] show "out = (Inr (FakeOnly fake), calls)" . }
    assume u: update_generator
    note o = update [OF i u]
    show "snd out = calls @ [(region, k, training)]"
      by (simp add: o)
    { fix z_hat assume "information_network self region k training = Inr z_hat"
      then show "fst out = Inr (FakeNoiseEstimate fake z z_hat)"
        by (simp add: o) }
    { fix e assume "information_network self region k training = Inl e"
      then show "fst out = Inl e"
        by (simp add: o) }
  qed
  have c4: "\<not> update_generator \<longrightarrow>
            snd out = calls \<and>
            (\<forall>r. fst out = Inr r \<longrightarrow>
               (\<exists>fake region z. inner = Inr (fake, region, z) \<and> r = FakeOnly fake))"
  proof (cases inner)
    case (Inl e)
    from failed [OF this] show ?thesis
      by simp
  next
    case (Inr res)
    obtain fake region z where res: "res = (fake, region, z)"
      by (cases res)
    show ?thesis
    proof
      assume "\<not> update_generator"
      from plain [OF Inr [unfolded res] this] Inr res
      show "snd out = calls \<and>
            (\<forall>r. fst out = Inr r \<longrightarrow>
               (\<exists>fake region z. inner = Inr (fake, region, z) \<and> r = FakeOnly fake))"
        by simp
    qed
  qed
  have c5: "update_generator \<longrightarrow>
            (\<forall>r. fst out = Inr r \<longrightarrow>
               (\<exists>fake region z z_hat.
                  inner = Inr (fake, region, z) \<and>
                  information_network self region k training = Inr z_hat \<and>
                  r = FakeNoiseEstimate fake z z_hat \<and>
                  snd out = calls @ [(region, k, training)]))"
  proof (cases inner)
    case (Inl e)
    from failed [OF this] show ?thesis
      by simp
  next
    case (Inr res)
    obtain fake region z where res: "res = (fake, region, z)"
      by (cases res)
    show ?thesis
    proof
      assume update_generator
      note o = update [OF Inr [unfolded res] this]
      show "\<forall>r. fst out = Inr r \<longrightarrow>
               (\<exists>fake region z z_hat.
                  inner = Inr (fake, region, z) \<and>
                  information_network self region k training = Inr z_hat \<and>
                  r = FakeNoiseEstimate fake z z_hat \<and>
                  snd out = calls @ [(region, k, training)])"
        using Inr res
        by (cases "information_network self region k training") (simp_all add: o)
    qed
  qed
  have c6: "snd out = calls \<or> (\<exists>region. snd out = calls @ [(region, k, training)])"
  proof (cases inner)
    case (Inl e)
    from failed [OF this] show ?thesis
      by simp
  next
    case (Inr res)
    obtain fake region z where res: "res = (fake, region, z)"
      by (cases res)
    show ?thesis
    proof (cases update_generator)
      case True
      from update [OF Inr [unfolded res] this] show ?thesis
        by simp
    next
      case False
      from plain [OF Inr [unfolded res] this] show ?thesis
        by simp
    qed
  qed
  have c3: "Generator_built base_channels self \<and> 0 < base_channels \<and> 0 < gen_n_input self \<and>
          normal_contract random_normal \<and> has_shape images B 128 128 3 \<and>
          has_shape logits B 128 128 (gen_n_classes self) \<and>
          - int (gen_n_classes self) \<le> k \<and> k < int (gen_n_classes self) \<longrightarrow>
            (\<exists>fake region z. inner = Inr (fake, region, z))"
    using total by blast
  show ?thesis
    by (intro conjI c1 c2 c3 c4 c5 c6)
qed


theorem Generator_call_result_witness:
  "Generator_call (generator_example 2 1 1) zeros (const_tensor 1 128 128 3 10)
     (const_tensor 1 128 128 2 0) 0 False False []
     = (Inr (FakeOnly (const_tensor 1 128 128 3 (tanh 1 / 2 + 5))), []) \<and>
   snd (Generator_call (generator_example 2 1 1) zeros (const_tensor 1 128 128 3 10)
          (const_tensor 1 128 128 2 0) 0 True False [])
     = [(const_tensor 1 128 128 3 (tanh 1 / 2), 0, False)] \<and>
   fst (Generator_call (generator_example 2 1 1) zeros (const_tensor 1 128 128 3 10)
          (const_tensor 1 128 128 2 0) 0 True False [])
     = Inr (FakeNoiseEstimate (const_tensor 1 128 128 3 (tanh 1 / 2 + 5)) (Matrix 1 1 [[0]])
              (Matrix 1 1 [[0]])) \<and>
   Generator_call (generator_example 2 1 1) zeros (const_tensor 1 128 128 3 10)
     (const_tensor 1 128 128 2 0) 2 True False [] = (Inl IndexError, []) \<and>
   (\<exists>fake region z.
      bindE (py_index (class_generators (generator_example 2 1 1)) (- 1)) (\<lambda>cg.
        ClassGenerator_call cg zeros (const_tensor 1 128 128 3 10) (const_tensor 1 128 128 2 0)
          (gen_n_input (generator_example 2 1 1)) True) = Inr (fake, region, z))"
proof -
  let ?G = "generator_example 2 1 1"
  let ?images = "const_tensor 1 128 128 3 10"
  let ?logits = "const_tensor 1 128 128 2 0"
  have idx: "py_index (class_generators ?G) 0 = Inr (class_generator_example 0 1 1)"
    using generator_example_nth [of 0 2 1 1] by (simp add: py_index_def generator_example_def)
  have idx2: "py_index (class_generators ?G) 2 = Inl IndexError"
    by (simp add: py_index_def generator_example_def)
  have n: "gen_n_input ?G = 1" and nc: "gen_n_classes ?G = 2"
    and info: "information_network ?G (const_tensor 1 128 128 3 (tanh 1 / 2)) 0 False
                 = Inr (Matrix 1 1 [[0]])"
    by (simp_all add: generator_example_def information_network_example_def)
  have inner: "bindE (py_index (class_generators ?G) 0) (\<lambda>cg.
      ClassGenerator_call cg zeros ?images ?logits (gen_n_input ?G) False)
    = Inr (const_tensor 1 128 128 3 (tanh 1 / 2 + 5), const_tensor 1 128 128 3 (tanh 1 / 2),
           Matrix 1 1 [[0]])"
    unfolding idx bindE_Inr n by (rule class_generator_example_call)
  have inner2: "bindE (py_index (class_generators ?G) 2) (\<lambda>cg.
      ClassGenerator_call cg zeros ?images ?logits (gen_n_input ?G) False) = Inl IndexError"
    unfolding idx2 by simp
  have built: "Generator_built 1 ?G"
    by (rule generator_example_built) simp
  have normal: "normal_contract zeros"
    by (simp add: normal_contract_def)
  have images: "has_shape ?images 1 128 128 3"
    by (rule has_shape_const_tensor)
  have logits: "has_shape ?logits 1 128 128 (gen_n_classes ?G)"
    unfolding nc by (rule has_shape_const_tensor)
  note fails = Generator_call_result
    [where self = ?G and random_normal = zeros and images = ?images and logits = ?logits,
      THEN conjunct1, rule_format]
  note returns = Generator_call_result
    [where self = ?G and random_normal = zeros and images = ?images and logits = ?logits,
      THEN conjunct2, THEN conjunct1, rule_format]
  note total = Generator_call_result
    [where self = ?G and random_normal = zeros and images = ?images and logits = ?logits
      and base_channels = 1 and B = 1,
      THEN conjunct2, THEN conjunct2, THEN conjunct1, rule_format]
  from returns [OF inner, where update_generator = False and calls = "[]"]
  have a: "Generator_call ?G zeros ?images ?logits 0 False False []
             = (Inr (FakeOnly (const_tensor 1 128 128 3 (tanh 1 / 2 + 5))), [])"
    by simp
  from returns [OF inner, where update_generator = True and calls = "[]"] info
  have b: "snd (Generator_call ?G zeros ?images ?logits 0 True False [])
             = [(const_tensor 1 128 128 3 (tanh 1 / 2), 0, False)]"
    and c: "fst (Generator_call ?G zeros ?images ?logits 0 True False [])
             = Inr (FakeNoiseEstimate (const_tensor 1 128 128 3 (tanh 1 / 2 + 5)) (Matrix 1 1 [[0]])
                      (Matrix 1 1 [[0]]))"
    by simp_all
  from fails [OF inner2, where update_generator = True and calls = "[]"]
  have d: "Generator_call ?G zeros ?images ?logits 2 True False [] = (Inl IndexError, [])" .
  have e: "\<exists>fake region z.
      bindE (py_index (class_generators ?G) (- 1)) (\<lambda>cg.
        ClassGenerator_call cg zeros ?images ?logits (gen_n_input ?G) True) = Inr (fake, region, z)"
    by (rule total) (use built normal images logits n nc in simp)
  from a b c d e show ?thesis
    by (intro conjI)
qed




end
